theory Spec2Isabelle
  imports Complex_Main "HOL-Library.Word"
begin

section \<open>Solidity 0.8 values, failures and checked arithmetic\<close>

text \<open>
  The contracts are compiled with \<^verbatim>\<open>pragma solidity ^0.8.20\<close>: every \<^verbatim>\<open>uint256\<close>
  operation is checked. A \<^verbatim>\<open>uint256\<close> is modelled as a natural number below \<open>2 ^ 256\<close>;
  an operation whose result leaves that range, a division by zero and an array access out
  of bounds end the call with a panic, a failed \<^verbatim>\<open>require\<close> ends it with its message.
  A call that fails returns \<open>Inl\<close> of the failure and no state: the transaction is rolled
  back, so the state before the call stays.
\<close>

type_synonym uint256 = nat
type_synonym address = "160 word"
type_synonym bytes32 = "256 word"

definition MAX_UINT256 :: nat where
  "MAX_UINT256 = 2 ^ 256 - 1"

datatype panic = Overflow | DivisionByZero | IndexOutOfBounds

datatype error =
    Revert string
  | Panic panic
  | OracleFailure
  | ExternalCallFailure

definition checked_add :: "uint256 \<Rightarrow> uint256 \<Rightarrow> error + uint256" where
  "checked_add a b = (if a + b \<le> MAX_UINT256 then Inr (a + b) else Inl (Panic Overflow))"

definition checked_sub :: "uint256 \<Rightarrow> uint256 \<Rightarrow> error + uint256" where
  "checked_sub a b = (if b \<le> a then Inr (a - b) else Inl (Panic Overflow))"

definition checked_mul :: "uint256 \<Rightarrow> uint256 \<Rightarrow> error + uint256" where
  "checked_mul a b = (if a * b \<le> MAX_UINT256 then Inr (a * b) else Inl (Panic Overflow))"

definition checked_div :: "uint256 \<Rightarrow> uint256 \<Rightarrow> error + uint256" where
  "checked_div a b = (if b = 0 then Inl (Panic DivisionByZero) else Inr (a div b))"

text \<open>Sequencing of steps that may fail: the first failure ends the call.\<close>

definition andThen :: "error + 'a \<Rightarrow> ('a \<Rightarrow> error + 'b) \<Rightarrow> error + 'b" where
  "andThen r f = (case r of Inl e \<Rightarrow> Inl e | Inr v \<Rightarrow> f v)"

section \<open>MEVDetector (contracts/MEVDetector.sol)\<close>

datatype ThreatType = SANDWICH | FRONTRUN | ARBITRAGE | UNKNOWN

datatype detector_event =
    MEVThreatDetected address bytes32 ThreatType uint256 uint256
  | PriceAnomalyDetected bytes32 uint256 uint256 uint256

text \<open>
  The storage of the contract. A Solidity \<^verbatim>\<open>mapping\<close> is a total function whose
  default is 0. \<open>detector_log\<close> collects the events the contract emits.
\<close>

record detector_state =
  owner :: address
  riskThreshold :: uint256
  minPriceDelta :: uint256
  frontRunGasMultiplier :: uint256
  lastPrices :: "bytes32 \<Rightarrow> uint256"
  lastUpdateTimestamp :: "bytes32 \<Rightarrow> uint256"
  gasHistory :: "uint256 list"
  gasHistoryIndex :: uint256
  detector_log :: "detector_event list"

definition GAS_HISTORY_SIZE :: nat where
  "GAS_HISTORY_SIZE = 100"

text \<open>
  What a call sees of its transaction and block. \<open>oracle_value\<close> stands for
  \<^verbatim>\<open>getOracleNumericValueFromTxMsg\<close> of the RedStone consumer base, which reads the price of a
  feed from the signed payload of the transaction and reverts when the payload is not
  acceptable (\<open>None\<close>).
\<close>

record call_env =
  msg_sender :: address
  msg_value :: uint256
  block_timestamp :: uint256
  tx_gasprice :: uint256
  oracle_value :: "bytes32 \<Rightarrow> uint256 option"

text \<open>The constructor: 100 slots of 0, the deployer as owner, the declared defaults.\<close>

definition detector_constructor :: "address \<Rightarrow> detector_state" where
  "detector_constructor deployer =
     \<lparr> owner = deployer, riskThreshold = 500, minPriceDelta = 100,
       frontRunGasMultiplier = 120, lastPrices = (\<lambda>_. 0), lastUpdateTimestamp = (\<lambda>_. 0),
       gasHistory = replicate GAS_HISTORY_SIZE 0, gasHistoryIndex = 0, detector_log = [] \<rparr>"

text \<open>\<^verbatim>\<open>_detectFrontRunning\<close>: \<^verbatim>\<open>txGasPrice > (avgGasPrice * frontRunGasMultiplier / 100)\<close>.\<close>

definition detectFrontRunning :: "uint256 \<Rightarrow> uint256 \<Rightarrow> detector_state \<Rightarrow> error + bool" where
  "detectFrontRunning txGasPrice avgGasPrice st =
     andThen (checked_mul avgGasPrice (frontRunGasMultiplier st)) (\<lambda>m.
     andThen (checked_div m 100) (\<lambda>threshold.
     Inr (txGasPrice > threshold)))"

text \<open>\<^verbatim>\<open>_detectArbitragePattern\<close>, reading the stored observation of the feed.\<close>

definition detectArbitragePattern ::
  "call_env \<Rightarrow> bytes32 \<Rightarrow> uint256 \<Rightarrow> detector_state \<Rightarrow> error + bool" where
  "detectArbitragePattern env feedId currentPrice st =
     (let lastPrice = lastPrices st feedId;
          lastUpdate = lastUpdateTimestamp st feedId
      in if lastPrice = 0 \<or> lastUpdate = 0 then Inr False
         else andThen (checked_sub (block_timestamp env) lastUpdate) (\<lambda>age.
              if age \<le> 30 then
                (let priceChange = (if currentPrice > lastPrice then currentPrice - lastPrice
                                    else lastPrice - currentPrice)
                 in andThen (checked_mul priceChange 10000) (\<lambda>m.
                    andThen (checked_div m lastPrice) (\<lambda>changePercentage.
                    Inr (changePercentage > minPriceDelta st))))
              else Inr False))"

text \<open>\<^verbatim>\<open>_updateGasHistory\<close>: write at the cursor, advance the cursor modulo 100.\<close>

definition updateGasHistory :: "uint256 \<Rightarrow> detector_state \<Rightarrow> error + detector_state" where
  "updateGasHistory gasPrice st =
     (if gasHistoryIndex st < length (gasHistory st) then
        andThen (checked_add (gasHistoryIndex st) 1) (\<lambda>n.
        Inr (st\<lparr> gasHistory := (gasHistory st)[gasHistoryIndex st := gasPrice],
                 gasHistoryIndex := n mod GAS_HISTORY_SIZE \<rparr>))
      else Inl (Panic IndexOutOfBounds))"

text \<open>
  The loop of \<^verbatim>\<open>_getAverageGasPrice\<close>, from index \<open>i\<close> with the running sum \<open>acc\<close> and
  \<open>count\<close>: only slots that hold a value above 0 are added and counted.
\<close>

function averageLoop ::
  "uint256 list \<Rightarrow> nat \<Rightarrow> uint256 \<Rightarrow> uint256 \<Rightarrow> error + (uint256 \<times> uint256)" where
  "averageLoop gh i acc count =
     (if i < GAS_HISTORY_SIZE then
        (if i < length gh then
           (if gh ! i > 0 then
              (case checked_add acc (gh ! i) of
                 Inl e \<Rightarrow> Inl e
               | Inr acc' \<Rightarrow>
                   (case checked_add count 1 of
                      Inl e \<Rightarrow> Inl e
                    | Inr count' \<Rightarrow> averageLoop gh (i + 1) acc' count'))
            else averageLoop gh (i + 1) acc count)
         else Inl (Panic IndexOutOfBounds))
      else Inr (acc, count))"
  by pat_completeness auto
termination
  by (relation "measure (\<lambda>(gh, i, acc, count). GAS_HISTORY_SIZE - i)") auto

declare averageLoop.simps [simp del]

definition getAverageGasPrice :: "detector_state \<Rightarrow> error + uint256" where
  "getAverageGasPrice st =
     andThen (averageLoop (gasHistory st) 0 0 0) (\<lambda>(acc, count).
     if count > 0 then checked_div acc count else Inr 0)"

text \<open>
  \<^verbatim>\<open>detectMEV\<close>, in the order of the source: the \<^verbatim>\<open>onlyOwner\<close> modifier, the oracle
  read, the write of the price history, the slippage, the write of the gas history, then
  the three detectors, the first that fires returning at once.
\<close>

definition detectMEV ::
  "call_env \<Rightarrow> bytes32 \<Rightarrow> uint256 \<Rightarrow> uint256 \<Rightarrow> detector_state
     \<Rightarrow> error + ((bool \<times> ThreatType \<times> uint256) \<times> detector_state)" where
  "detectMEV env feedId expectedPrice txGasPrice st =
     (if msg_sender env \<noteq> owner st then Inl (Revert ''Ownable: caller is not the owner'')
      else case oracle_value env feedId of
        None \<Rightarrow> Inl OracleFailure
      | Some currentPrice \<Rightarrow>
         (let st1 = st\<lparr> lastPrices := (lastPrices st)(feedId := currentPrice),
                        lastUpdateTimestamp :=
                          (lastUpdateTimestamp st)(feedId := block_timestamp env) \<rparr>;
              delta = (if currentPrice > expectedPrice then currentPrice - expectedPrice
                       else expectedPrice - currentPrice)
          in andThen (checked_mul delta 10000) (\<lambda>m.
             andThen (checked_div m expectedPrice) (\<lambda>slippagePercentage.
             andThen (updateGasHistory txGasPrice st1) (\<lambda>st2.
             if slippagePercentage > riskThreshold st2 then
               Inr ((True, SANDWICH, slippagePercentage),
                    st2\<lparr> detector_log := detector_log st2 @
                      [MEVThreatDetected (msg_sender env) feedId SANDWICH slippagePercentage
                         (block_timestamp env),
                       PriceAnomalyDetected feedId expectedPrice currentPrice delta] \<rparr>)
             else
               andThen (getAverageGasPrice st2) (\<lambda>avgGasPrice.
               andThen (if avgGasPrice > 0 then detectFrontRunning txGasPrice avgGasPrice st2
                        else Inr False) (\<lambda>frontRun.
               if frontRun then
                 andThen (checked_sub txGasPrice avgGasPrice) (\<lambda>d.
                 andThen (checked_mul d 10000) (\<lambda>dm.
                 andThen (checked_div dm avgGasPrice) (\<lambda>riskScore.
                 Inr ((True, FRONTRUN, riskScore),
                      st2\<lparr> detector_log := detector_log st2 @
                        [MEVThreatDetected (msg_sender env) feedId FRONTRUN riskScore
                           (block_timestamp env)] \<rparr>))))
               else
                 andThen (detectArbitragePattern env feedId currentPrice st2) (\<lambda>arbitrage.
                 if arbitrage then
                   Inr ((True, ARBITRAGE, 300),
                        st2\<lparr> detector_log := detector_log st2 @
                          [MEVThreatDetected (msg_sender env) feedId ARBITRAGE 300
                             (block_timestamp env)] \<rparr>)
                 else Inr ((False, UNKNOWN, 0), st2)))))))))"

text \<open>\<^verbatim>\<open>getCurrentPrice\<close>: the oracle value of the feed.\<close>

definition getCurrentPrice :: "call_env \<Rightarrow> bytes32 \<Rightarrow> error + uint256" where
  "getCurrentPrice env feedId =
     (case oracle_value env feedId of None \<Rightarrow> Inl OracleFailure | Some p \<Rightarrow> Inr p)"

text \<open>\<^verbatim>\<open>getPriceHistory\<close>: the stored observation of the feed.\<close>

definition getPriceHistory :: "detector_state \<Rightarrow> bytes32 \<Rightarrow> uint256 \<times> uint256" where
  "getPriceHistory st feedId = (lastPrices st feedId, lastUpdateTimestamp st feedId)"

text \<open>
  The storage invariant: the constructor pushes 100 slots, nothing else changes the length
  of the array, and the cursor is always reduced modulo 100.
\<close>

definition detector_inv :: "detector_state \<Rightarrow> bool" where
  "detector_inv st \<longleftrightarrow>
     length (gasHistory st) = GAS_HISTORY_SIZE \<and> gasHistoryIndex st < GAS_HISTORY_SIZE"

text \<open>
  The specification's words for the two formulas the claims compare the code with: the
  slippage in basis points, and the mean of the populated (non-zero) slots, 0 when there is
  none. Division is the integer division of the contract.
\<close>

definition spec_slippageBp :: "uint256 \<Rightarrow> uint256 \<Rightarrow> uint256" where
  "spec_slippageBp observedPrice expectedPrice =
     (if observedPrice > expectedPrice then observedPrice - expectedPrice
      else expectedPrice - observedPrice) * 10000 div expectedPrice"

definition spec_average :: "uint256 list \<Rightarrow> uint256" where
  "spec_average gh =
     (let populated = filter (\<lambda>g. 0 < g) gh
      in if populated = [] then 0 else sum_list populated div length populated)"

section \<open>MEVProtector (contracts/MEVProtector.sol): the stored oracle price\<close>

record oracle_store =
  authorizedIndexer :: address
  priceDeviationThreshold :: uint256
  lastOraclePrices :: "string \<Rightarrow> uint256"
  lastOracleUpdate :: "string \<Rightarrow> uint256"

text \<open>\<^verbatim>\<open>updateOraclePrice\<close>, with its \<^verbatim>\<open>onlyIndexer\<close> modifier.\<close>

definition updateOraclePrice ::
  "call_env \<Rightarrow> string \<Rightarrow> uint256 \<Rightarrow> oracle_store \<Rightarrow> error + oracle_store" where
  "updateOraclePrice env symbol price st =
     (if msg_sender env \<noteq> authorizedIndexer st then Inl (Revert ''Only authorized indexer'')
      else Inr (st\<lparr> lastOraclePrices := (lastOraclePrices st)(symbol := price),
                    lastOracleUpdate := (lastOracleUpdate st)(symbol := block_timestamp env) \<rparr>))"

text \<open>\<^verbatim>\<open>checkPriceAnomaly\<close>: two \<^verbatim>\<open>require\<close>s, then the deviation in basis points.\<close>

definition checkPriceAnomaly ::
  "call_env \<Rightarrow> string \<Rightarrow> uint256 \<Rightarrow> oracle_store \<Rightarrow> error + bool" where
  "checkPriceAnomaly env symbol currentPrice st =
     (let oraclePrice = lastOraclePrices st symbol
      in if \<not> oraclePrice > 0 then Inl (Revert ''No oracle price available'')
         else andThen (checked_sub (block_timestamp env) (lastOracleUpdate st symbol)) (\<lambda>age.
              if \<not> age < 300 then Inl (Revert ''Oracle price too old'')
              else andThen
                     (if currentPrice > oraclePrice then
                        andThen (checked_mul (currentPrice - oraclePrice) 10000) (\<lambda>m.
                        checked_div m oraclePrice)
                      else
                        andThen (checked_mul (oraclePrice - currentPrice) 10000) (\<lambda>m.
                        checked_div m oraclePrice))
                     (\<lambda>deviation. Inr (deviation > priceDeviationThreshold st))))"

section \<open>MEVProtectorAdvanced (contracts/MEVProtectorAdvanced.sol)\<close>

datatype ProtectionStrategy = REVERT | ADJUST | DELAY | PRIVATE_RELAY

record ProtectionConfig =
  isActive :: bool
  strategy :: ProtectionStrategy
  maxSlippage :: uint256
  gasLimit :: uint256
  whitelistMode :: bool

record SwapParams =
  tokenIn :: address
  tokenOut :: address
  amountIn :: uint256
  minAmountOut :: uint256
  pricefeedId :: bytes32
  deadline :: uint256
  recipient :: address

record ProtectionStats =
  totalProtectedSwaps :: uint256
  threatsDetected :: uint256
  threatsBlocked :: uint256
  totalValueProtected :: uint256
  feesCollected :: uint256

datatype protector_event =
    ProtectionActivated address address address uint256 ProtectionStrategy
  | ThreatMitigated address bytes32 ThreatType uint256 ProtectionStrategy
  | SwapProtected address address address uint256 uint256 uint256
  | ConfigurationUpdated address ProtectionStrategy uint256

text \<open>
  The calls the contract makes to other contracts and accounts: the two ERC-20 calls on
  the input token (token, then the arguments of the call) and the payment of the fee.
\<close>

datatype external_call =
    TokenTransferFrom address address address uint256
  | TokenTransfer address address uint256
  | EtherTransfer address uint256

record protector_state =
  treasury :: address
  protectionFee :: uint256
  maxProtectionFee :: uint256
  userConfigs :: "address \<Rightarrow> ProtectionConfig"
  userStats :: "address \<Rightarrow> ProtectionStats"
  whitelistedTokens :: "address \<Rightarrow> bool"
  priceDelays :: "bytes32 \<Rightarrow> uint256"
  globalStats :: ProtectionStats
  protector_log :: "protector_event list"

text \<open>
  The protector, the detector it owns, the address of the protector (the \<^verbatim>\<open>msg.sender\<close>
  the detector sees) and the calls made so far to tokens and accounts. \<open>callee_accepts\<close>
  says which of these calls the callee lets through; a call it rejects reverts the whole
  transaction. \<open>eth_balance\<close> is the native balance of the protector: a \<^verbatim>\<open>payable\<close>
  call adds its \<^verbatim>\<open>msg.value\<close> to it, and only a transfer the contract makes takes from
  it. \<open>relayed_oracle\<close> is what the detector's oracle read yields when it is the protector
  that calls the detector: the protector makes a plain call, which does not carry the
  signed payload that the caller may have attached to its own call, so this read is not
  the caller's \<open>oracle_value\<close>. The consumer base is not part of the repository; its
  answer to such a call is a parameter (\<open>None\<close>: the read reverts).
\<close>

record world =
  protector :: protector_state
  detector :: detector_state
  this_address :: address
  external_calls :: "external_call list"
  callee_accepts :: "external_call \<Rightarrow> bool"
  eth_balance :: uint256
  relayed_oracle :: "bytes32 \<Rightarrow> uint256 option"

definition external :: "external_call \<Rightarrow> world \<Rightarrow> error + world" where
  "external c w =
     (if callee_accepts w c then Inr (w\<lparr> external_calls := external_calls w @ [c] \<rparr>)
      else Inl ExternalCallFailure)"

text \<open>\<^verbatim>\<open>configureProtection\<close>: the two \<^verbatim>\<open>require\<close>s, then the configuration is overwritten.\<close>

definition configureProtection ::
  "call_env \<Rightarrow> ProtectionStrategy \<Rightarrow> uint256 \<Rightarrow> uint256 \<Rightarrow> bool \<Rightarrow> protector_state
     \<Rightarrow> error + protector_state" where
  "configureProtection env strat slip gasLim wlMode p =
     (if \<not> slip \<le> 1000 then Inl (Revert ''Slippage too high'')
      else if \<not> gasLim \<ge> 100000 then Inl (Revert ''Gas limit too low'')
      else Inr (p\<lparr> userConfigs := (userConfigs p)(msg_sender env :=
                      \<lparr> isActive = True, strategy = strat, maxSlippage = slip,
                        gasLimit = gasLim, whitelistMode = wlMode \<rparr>),
                   protector_log := protector_log p @
                     [ConfigurationUpdated (msg_sender env) strat slip] \<rparr>))"

text \<open>\<^verbatim>\<open>_calculateDelay\<close>.\<close>

definition calculateDelay :: "ThreatType \<Rightarrow> uint256 \<Rightarrow> error + uint256" where
  "calculateDelay threatType riskScore =
     (if threatType = SANDWICH then checked_add 30 (riskScore div 100)
      else if threatType = FRONTRUN then checked_add 15 (riskScore div 200)
      else if threatType = ARBITRAGE then checked_add 5 (riskScore div 500)
      else Inr 10)"

text \<open>\<^verbatim>\<open>_applyProtectionStrategy\<close>: whether the swap is blocked; DELAY records the time.\<close>

definition applyProtectionStrategy ::
  "call_env \<Rightarrow> ProtectionStrategy \<Rightarrow> SwapParams \<Rightarrow> ThreatType \<Rightarrow> uint256 \<Rightarrow> protector_state
     \<Rightarrow> error + (bool \<times> protector_state)" where
  "applyProtectionStrategy env strat params threatType riskScore p =
     (if strat = REVERT then Inr (True, p)
      else if strat = ADJUST then Inr (False, p)
      else if strat = DELAY then
        andThen (calculateDelay threatType riskScore) (\<lambda>delayTime.
        andThen (checked_add (block_timestamp env) delayTime) (\<lambda>until.
        Inr (True, p\<lparr> priceDelays := (priceDelays p)(pricefeedId params := until) \<rparr>)))
      else if strat = PRIVATE_RELAY then Inr (False, p)
      else Inr (False, p))"

text \<open>\<^verbatim>\<open>_calculateExpectedPrice\<close>: the detector's current price of the feed.\<close>

definition calculateExpectedPrice :: "call_env \<Rightarrow> SwapParams \<Rightarrow> error + uint256" where
  "calculateExpectedPrice env params = getCurrentPrice env (pricefeedId params)"

text \<open>\<^verbatim>\<open>_estimateUSDValue\<close>: the amount itself.\<close>

definition estimateUSDValue :: "address \<Rightarrow> uint256 \<Rightarrow> uint256" where
  "estimateUSDValue token amount = amount"

text \<open>
  \<^verbatim>\<open>_executeSwap\<close>: the input tokens are pulled from the caller, the output is computed
  from the oracle price, and each of the two slippage checks refunds the input and
  returns \<open>(False, 0)\<close>. (The source also computes a recipient that it does not use.)
\<close>

definition executeSwap ::
  "call_env \<Rightarrow> SwapParams \<Rightarrow> ProtectionConfig \<Rightarrow> world \<Rightarrow> error + ((bool \<times> uint256) \<times> world)" where
  "executeSwap env params config w =
     andThen (external (TokenTransferFrom (tokenIn params) (msg_sender env) (this_address w)
                          (amountIn params)) w) (\<lambda>w1.
     andThen (getCurrentPrice env (pricefeedId params)) (\<lambda>currentPrice.
     andThen (checked_mul (amountIn params) currentPrice) (\<lambda>m.
     andThen (checked_div m (10 ^ 18)) (\<lambda>amountOut.
     if amountOut < minAmountOut params then
       andThen (external (TokenTransfer (tokenIn params) (msg_sender env) (amountIn params)) w1)
         (\<lambda>w2. Inr ((False, 0), w2))
     else
       andThen (checked_mul (amountIn params) currentPrice) (\<lambda>m'.
       andThen (checked_div m' (10 ^ 18)) (\<lambda>expectedOut.
       andThen (if expectedOut > amountOut then
                  andThen (checked_mul (expectedOut - amountOut) 10000) (\<lambda>d.
                  checked_div d expectedOut)
                else Inr 0) (\<lambda>slippage.
       if slippage > maxSlippage config then
         andThen (external (TokenTransfer (tokenIn params) (msg_sender env) (amountIn params)) w1)
           (\<lambda>w2. Inr ((False, 0), w2))
       else Inr ((True, amountOut), w1))))))))"

text \<open>
  \<^verbatim>\<open>_collectProtectionFee\<close>: the fee is paid out only when the call carries it. The
  transfer reverts when the balance of the contract does not cover it, and takes the fee
  from the balance otherwise.
\<close>

definition collectProtectionFee ::
  "call_env \<Rightarrow> uint256 \<Rightarrow> world \<Rightarrow> error + (uint256 \<times> world)" where
  "collectProtectionFee env amount w =
     andThen (checked_mul amount (protectionFee (protector w))) (\<lambda>m.
     andThen (checked_div m 10000) (\<lambda>feeAmount.
     if msg_value env \<ge> feeAmount then
       (if eth_balance w < feeAmount then Inl ExternalCallFailure
        else andThen (external (EtherTransfer (treasury (protector w)) feeAmount) w) (\<lambda>w'.
             Inr (feeAmount, w'\<lparr> eth_balance := eth_balance w' - feeAmount \<rparr>)))
     else Inr (feeAmount, w)))"

text \<open>The counter updates of \<^verbatim>\<open>protectSwap\<close>, each a checked addition.\<close>

definition countSwap :: "ProtectionStats \<Rightarrow> error + ProtectionStats" where
  "countSwap s = andThen (checked_add (totalProtectedSwaps s) 1) (\<lambda>n.
     Inr (s\<lparr> totalProtectedSwaps := n \<rparr>))"

definition countDetected :: "ProtectionStats \<Rightarrow> error + ProtectionStats" where
  "countDetected s = andThen (checked_add (threatsDetected s) 1) (\<lambda>n.
     Inr (s\<lparr> threatsDetected := n \<rparr>))"

definition countBlocked :: "ProtectionStats \<Rightarrow> error + ProtectionStats" where
  "countBlocked s = andThen (checked_add (threatsBlocked s) 1) (\<lambda>n.
     Inr (s\<lparr> threatsBlocked := n \<rparr>))"

definition addValue :: "uint256 \<Rightarrow> ProtectionStats \<Rightarrow> error + ProtectionStats" where
  "addValue v s = andThen (checked_add (totalValueProtected s) v) (\<lambda>n.
     Inr (s\<lparr> totalValueProtected := n \<rparr>))"

definition addFees :: "uint256 \<Rightarrow> ProtectionStats \<Rightarrow> error + ProtectionStats" where
  "addFees f s = andThen (checked_add (feesCollected s) f) (\<lambda>n.
     Inr (s\<lparr> feesCollected := n \<rparr>))"

text \<open>Apply a counter update to the global statistics, then to the caller's.\<close>

definition updateStats ::
  "(ProtectionStats \<Rightarrow> error + ProtectionStats) \<Rightarrow> address \<Rightarrow> protector_state
     \<Rightarrow> error + protector_state" where
  "updateStats f user p =
     andThen (f (globalStats p)) (\<lambda>g.
     andThen (f (userStats p user)) (\<lambda>u.
     Inr (p\<lparr> globalStats := g, userStats := (userStats p)(user := u) \<rparr>)))"

text \<open>
  The part of \<^verbatim>\<open>protectSwap\<close> that runs when the detector reported a threat: the
  counters, the strategy, and for a blocked swap the event. The result says whether the
  swap is blocked.
\<close>

definition handleThreat ::
  "call_env \<Rightarrow> SwapParams \<Rightarrow> ProtectionConfig \<Rightarrow> ThreatType \<Rightarrow> uint256 \<Rightarrow> protector_state
     \<Rightarrow> error + (bool \<times> protector_state)" where
  "handleThreat env params config threatType riskScore p =
     andThen (updateStats countDetected (msg_sender env) p) (\<lambda>p1.
     andThen (applyProtectionStrategy env (strategy config) params threatType riskScore p1)
       (\<lambda>(blocked, p2).
     if blocked then
       andThen (updateStats countBlocked (msg_sender env) p2) (\<lambda>p3.
       Inr (True, p3\<lparr> protector_log := protector_log p3 @
              [ThreatMitigated (msg_sender env) (pricefeedId params) threatType riskScore
                 (strategy config)] \<rparr>))
     else Inr (False, p2)))"

text \<open>
  The part of \<^verbatim>\<open>protectSwap\<close> after the detection for a swap that is not blocked: the
  swap, for a successful one the fee, the statistics and the event, then the final event.
\<close>

definition executeProtected ::
  "call_env \<Rightarrow> SwapParams \<Rightarrow> ProtectionConfig \<Rightarrow> world \<Rightarrow> error + ((bool \<times> uint256) \<times> world)" where
  "executeProtected env params config w =
     andThen (executeSwap env params config w) (\<lambda>((success, amountOut), w1).
     andThen
       (if success then
          andThen (collectProtectionFee env (amountIn params) w1) (\<lambda>(feeAmount, w2).
          andThen (updateStats (\<lambda>s. andThen (addValue (estimateUSDValue (tokenIn params)
                     (amountIn params)) s) (addFees feeAmount)) (msg_sender env) (protector w2))
            (\<lambda>p3.
          Inr (w2\<lparr> protector := p3\<lparr> protector_log := protector_log p3 @
                 [SwapProtected (msg_sender env) (tokenIn params) (tokenOut params)
                    (amountIn params) amountOut feeAmount] \<rparr> \<rparr>)))
        else Inr w1) (\<lambda>w4.
     Inr ((success, amountOut),
          w4\<lparr> protector := (protector w4)\<lparr> protector_log := protector_log (protector w4) @
            [ProtectionActivated (msg_sender env) (tokenIn params) (tokenOut params)
               (amountIn params) (strategy config)] \<rparr> \<rparr>)))"

text \<open>
  \<^verbatim>\<open>protectSwap\<close>: the guards in the order of the source, the expected price, the
  detection (called by the protector, so with the protector as \<^verbatim>\<open>msg.sender\<close> and with
  the relayed oracle read), the counters, and then either the blocked return
  \<open>(False, 0)\<close> or the swap. The function is \<^verbatim>\<open>payable\<close>: the value of the call is in the
  balance of the contract from the start of the call (\<open>paid\<close>), and it stays there on
  every return; only a revert gives it back. The \<^verbatim>\<open>nonReentrant\<close> guard concerns calls
  back into the contract from a token and is not part of a single call.
\<close>

definition protectSwap ::
  "call_env \<Rightarrow> SwapParams \<Rightarrow> world \<Rightarrow> error + ((bool \<times> uint256) \<times> world)" where
  "protectSwap env params w =
     (if \<not> deadline params \<ge> block_timestamp env then Inl (Revert ''Swap expired'')
      else if \<not> amountIn params > 0 then Inl (Revert ''Invalid amount'')
      else
        (let config = userConfigs (protector w) (msg_sender env);
             paid = w\<lparr> eth_balance := eth_balance w + msg_value env \<rparr>;
             relayed = env\<lparr> oracle_value := relayed_oracle w \<rparr>
         in if \<not> isActive config then Inl (Revert ''Protection not configured'')
            else if whitelistMode config \<and> \<not> whitelistedTokens (protector w) (tokenIn params)
              then Inl (Revert ''Token not whitelisted'')
            else if whitelistMode config \<and> \<not> whitelistedTokens (protector w) (tokenOut params)
              then Inl (Revert ''Token not whitelisted'')
            else
              andThen (calculateExpectedPrice relayed params) (\<lambda>expectedPrice.
              andThen (detectMEV (relayed\<lparr> msg_sender := this_address w \<rparr>)
                         (pricefeedId params) expectedPrice (tx_gasprice env) (detector w))
                (\<lambda>((isThreat, threatType, riskScore), d').
              andThen (updateStats countSwap (msg_sender env) (protector w)) (\<lambda>p1.
              andThen (if isThreat then handleThreat env params config threatType riskScore p1
                       else Inr (False, p1)) (\<lambda>(blocked, p2).
              if blocked then Inr ((False, 0), paid\<lparr> protector := p2, detector := d' \<rparr>)
              else executeProtected relayed params config
                     (paid\<lparr> protector := p2, detector := d' \<rparr>)))))))"

section \<open>Analytics path (subgraph/src/mev-detection.ts)\<close>

text \<open>
  The mapping code works on \<^verbatim>\<open>BigInt\<close>, an unbounded signed integer, modelled as \<open>int\<close>.
  The fields of the \<^verbatim>\<open>Transaction\<close> entity that the detectors read: \<^verbatim>\<open>to\<close> may be null.
  The module-level array \<^verbatim>\<open>recentTransactions\<close> is passed as the list \<open>recent\<close>, oldest
  first.
\<close>

record Transaction =
  trx_hash :: bytes32
  trx_from :: address
  trx_to :: "address option"
  trx_value :: int
  trx_gasPrice :: int
  trx_timestamp :: int

definition SANDWICH_TIME_WINDOW :: int where
  "SANDWICH_TIME_WINDOW = 5"

definition FRONT_RUN_GAS_MULTIPLIER :: int where
  "FRONT_RUN_GAS_MULTIPLIER = 115"

definition MAX_RECENT_TRANSACTIONS :: nat where
  "MAX_RECENT_TRANSACTIONS = 50"

text \<open>\<^verbatim>\<open>BigInt.div\<close> truncates towards zero; the divisors used here are constants above 0.\<close>

definition bigint_div :: "int \<Rightarrow> int \<Rightarrow> int" where
  "bigint_div a b = sgn a * sgn b * (\<bar>a\<bar> div \<bar>b\<bar>)"

text \<open>\<^verbatim>\<open>detectSandwich\<close>: the loop over the recent transactions, returning at the first hit.\<close>

fun detectSandwich :: "Transaction list \<Rightarrow> Transaction \<Rightarrow> int \<Rightarrow> bool" where
  "detectSandwich [] transaction blockTimestamp = False"
| "detectSandwich (recentTx # rest) transaction blockTimestamp =
     (if trx_to recentTx \<noteq> None \<and> trx_to transaction \<noteq> None \<and>
         the (trx_to recentTx) = the (trx_to transaction) \<and>
         blockTimestamp - trx_timestamp recentTx \<le> SANDWICH_TIME_WINDOW
      then (if trx_gasPrice recentTx > trx_gasPrice transaction then True
            else detectSandwich rest transaction blockTimestamp)
      else detectSandwich rest transaction blockTimestamp)"

text \<open>The inner loop of \<^verbatim>\<open>detectFrontRun\<close>: a recent transaction to the same target.\<close>

fun sameTargetRecent :: "Transaction list \<Rightarrow> Transaction \<Rightarrow> bool" where
  "sameTargetRecent [] transaction = False"
| "sameTargetRecent (recentTx # rest) transaction =
     (if trx_to recentTx \<noteq> None \<and> trx_to transaction \<noteq> None \<and>
         the (trx_to recentTx) = the (trx_to transaction)
      then True
      else sameTargetRecent rest transaction)"

text \<open>\<^verbatim>\<open>detectFrontRun\<close>.\<close>

definition detectFrontRun :: "Transaction list \<Rightarrow> Transaction \<Rightarrow> int \<Rightarrow> bool" where
  "detectFrontRun recent transaction avgGasPrice =
     (let gasThreshold = bigint_div (avgGasPrice * FRONT_RUN_GAS_MULTIPLIER) 100
      in if trx_gasPrice transaction > gasThreshold then sameTargetRecent recent transaction
         else False)"

text \<open>\<^verbatim>\<open>detectArbitrage\<close>.\<close>

definition detectArbitrage :: "Transaction \<Rightarrow> int \<Rightarrow> bool" where
  "detectArbitrage transaction blockTimestamp =
     (let threshold = 1000000000000000000
      in if trx_value transaction > threshold \<and> trx_gasPrice transaction > 0 then True
         else False)"

text \<open>
  The three groups of points of \<^verbatim>\<open>calculateRiskScore\<close>. The ratio of the gas price to
  the average is a \<^verbatim>\<open>BigDecimal\<close> quotient, modelled as the exact rational; the points are
  whole numbers, so the floating-point sum of the source is exact.
\<close>

definition gasPoints :: "Transaction \<Rightarrow> int \<Rightarrow> int" where
  "gasPoints transaction avgGasPrice =
     (if avgGasPrice > 0 then
        (let gasRatio = (of_int (trx_gasPrice transaction) :: rat) / of_int avgGasPrice
         in if gasRatio > 2 then 30
            else if gasRatio > 3 / 2 then 20
            else if gasRatio > 6 / 5 then 10
            else 0)
      else 0)"

definition valuePoints :: "Transaction \<Rightarrow> int" where
  "valuePoints transaction =
     (let highValueThreshold = 10000000000000000000
      in if trx_value transaction > highValueThreshold then 25
         else if trx_value transaction > 1000000000000000000 then 15
         else 0)"

definition patternPoints :: "Transaction list \<Rightarrow> Transaction \<Rightarrow> int \<Rightarrow> int \<Rightarrow> int" where
  "patternPoints recent transaction avgGasPrice blockTimestamp =
     (if detectSandwich recent transaction blockTimestamp then 25 else 0) +
     (if detectFrontRun recent transaction avgGasPrice then 20 else 0) +
     (if detectArbitrage transaction blockTimestamp then 15 else 0)"

text \<open>\<^verbatim>\<open>calculateRiskScore\<close>: the sum of the points, cut at 100.\<close>

definition calculateRiskScore :: "Transaction list \<Rightarrow> Transaction \<Rightarrow> int \<Rightarrow> int \<Rightarrow> int" where
  "calculateRiskScore recent transaction avgGasPrice blockTimestamp =
     (let score = gasPoints transaction avgGasPrice + valuePoints transaction +
                  patternPoints recent transaction avgGasPrice blockTimestamp
      in min score 100)"

text \<open>\<^verbatim>\<open>addToRecentTransactions\<close>: push, then drop the oldest above 50 entries.\<close>

definition addToRecentTransactions :: "Transaction \<Rightarrow> Transaction list \<Rightarrow> Transaction list" where
  "addToRecentTransactions transaction recent =
     (let pushed = recent @ [transaction]
      in if length pushed > MAX_RECENT_TRANSACTIONS then tl pushed else pushed)"

section \<open>Auxiliary definitions and concrete inputs\<close>

text \<open>
  The part of \<^verbatim>\<open>detectMEV\<close> that follows the sandwich test, under a name of its own so
  that it can be reasoned about separately (\<open>detectMEV_unfold\<close> below shows that
  \<open>detectMEV\<close> is the head followed by this tail), and the absolute difference the head
  computes.
\<close>

definition detectMEV_tail ::
  "call_env \<Rightarrow> bytes32 \<Rightarrow> uint256 \<Rightarrow> uint256 \<Rightarrow> detector_state
     \<Rightarrow> error + ((bool \<times> ThreatType \<times> uint256) \<times> detector_state)" where
  "detectMEV_tail env feedId currentPrice txGasPrice st2 =
     andThen (getAverageGasPrice st2) (\<lambda>avgGasPrice.
     andThen (if avgGasPrice > 0 then detectFrontRunning txGasPrice avgGasPrice st2
              else Inr False) (\<lambda>frontRun.
     if frontRun then
       andThen (checked_sub txGasPrice avgGasPrice) (\<lambda>d.
       andThen (checked_mul d 10000) (\<lambda>dm.
       andThen (checked_div dm avgGasPrice) (\<lambda>riskScore.
       Inr ((True, FRONTRUN, riskScore),
            st2\<lparr> detector_log := detector_log st2 @
              [MEVThreatDetected (msg_sender env) feedId FRONTRUN riskScore
                 (block_timestamp env)] \<rparr>))))
     else
       andThen (detectArbitragePattern env feedId currentPrice st2) (\<lambda>arbitrage.
       if arbitrage then
         Inr ((True, ARBITRAGE, 300),
              st2\<lparr> detector_log := detector_log st2 @
                [MEVThreatDetected (msg_sender env) feedId ARBITRAGE 300
                   (block_timestamp env)] \<rparr>)
       else Inr ((False, UNKNOWN, 0), st2))))"

definition absDiff :: "nat \<Rightarrow> nat \<Rightarrow> nat" where
  "absDiff a b = (if a > b then a - b else b - a)"

text \<open>The feed identifier and the states and calls used as concrete inputs.\<close>

definition ETH :: bytes32 where
  "ETH = 4543560"

definition c6_state :: detector_state where
  "c6_state = (detector_constructor 1)\<lparr>
      gasHistory := 20000000000 # 30000000000 # replicate 98 0, gasHistoryIndex := 2 \<rparr>"

definition quiet_env :: "uint256 \<Rightarrow> uint256 \<Rightarrow> call_env" where
  "quiet_env now price =
     \<lparr> msg_sender = 1, msg_value = 0, block_timestamp = now, tx_gasprice = 20000000000,
       oracle_value = (\<lambda>f. if f = ETH then Some price else None) \<rparr>"

definition c1_state :: detector_state where
  "c1_state = (detector_constructor 1)\<lparr>
      lastPrices := (\<lambda>f. if f = ETH then 2000 else 0),
      lastUpdateTimestamp := (\<lambda>f. if f = ETH then 1000 else 0) \<rparr>"

definition c5_recentTx :: Transaction where
  "c5_recentTx = \<lparr> trx_hash = 1, trx_from = 4, trx_to = Some 9, trx_value = 0,
      trx_gasPrice = 0, trx_timestamp = 99 \<rparr>"

definition c5_transaction :: Transaction where
  "c5_transaction = \<lparr> trx_hash = 2, trx_from = 3, trx_to = Some 9, trx_value = 0,
      trx_gasPrice = 1, trx_timestamp = 100 \<rparr>"

definition c7_recentTx :: Transaction where
  "c7_recentTx = \<lparr> trx_hash = 1, trx_from = 4, trx_to = Some 9, trx_value = 0,
      trx_gasPrice = 105, trx_timestamp = 99 \<rparr>"

definition c7_transaction :: "int \<Rightarrow> Transaction" where
  "c7_transaction g = \<lparr> trx_hash = 2, trx_from = 3, trx_to = Some 9, trx_value = 0,
      trx_gasPrice = g, trx_timestamp = 100 \<rparr>"

definition c8_store :: oracle_store where
  "c8_store = \<lparr> authorizedIndexer = 5, priceDeviationThreshold = 200,
      lastOraclePrices = (\<lambda>s. if s = ''ETH'' then 2000 else 0),
      lastOracleUpdate = (\<lambda>s. if s = ''ETH'' then 1000 else 0) \<rparr>"

text \<open>
  \<^verbatim>\<open>_executeSwap\<close> with its second check (the computed slippage against the configured
  tolerance) deleted: what is left is the check against \<open>minAmountOut\<close>.
\<close>

definition executeSwap_minAmountOut_only ::
  "call_env \<Rightarrow> SwapParams \<Rightarrow> world \<Rightarrow> error + ((bool \<times> uint256) \<times> world)" where
  "executeSwap_minAmountOut_only env params w =
     andThen (external (TokenTransferFrom (tokenIn params) (msg_sender env) (this_address w)
                          (amountIn params)) w) (\<lambda>w1.
     andThen (getCurrentPrice env (pricefeedId params)) (\<lambda>currentPrice.
     andThen (checked_mul (amountIn params) currentPrice) (\<lambda>m.
     andThen (checked_div m (10 ^ 18)) (\<lambda>amountOut.
     if amountOut < minAmountOut params then
       andThen (external (TokenTransfer (tokenIn params) (msg_sender env) (amountIn params)) w1)
         (\<lambda>w2. Inr ((False, 0), w2))
     else Inr ((True, amountOut), w1)))))"

definition c2_config :: ProtectionConfig where
  "c2_config = \<lparr> isActive = True, strategy = REVERT, maxSlippage = 500, gasLimit = 300000,
      whitelistMode = False \<rparr>"

definition no_stats :: ProtectionStats where
  "no_stats = \<lparr> totalProtectedSwaps = 0, threatsDetected = 0, threatsBlocked = 0,
      totalValueProtected = 0, feesCollected = 0 \<rparr>"

definition c2_protector :: protector_state where
  "c2_protector = \<lparr> treasury = 8, protectionFee = 100, maxProtectionFee = 500,
      userConfigs = (\<lambda>u. if u = 2 then c2_config else c2_config\<lparr> isActive := False \<rparr>),
      userStats = (\<lambda>_. no_stats), whitelistedTokens = (\<lambda>_. False), priceDelays = (\<lambda>_. 0),
      globalStats = no_stats, protector_log = [] \<rparr>"

definition c2_detector :: detector_state where
  "c2_detector = (detector_constructor 7)\<lparr>
      gasHistory := replicate GAS_HISTORY_SIZE 10000000000 \<rparr>"

definition c2_world :: world where
  "c2_world = \<lparr> protector = c2_protector, detector = c2_detector, this_address = 7,
      external_calls = [], callee_accepts = (\<lambda>_. True), eth_balance = 0,
      relayed_oracle = (\<lambda>f. if f = ETH then Some 2000 else None) \<rparr>"

definition c2_env :: call_env where
  "c2_env = \<lparr> msg_sender = 2, msg_value = 0, block_timestamp = 1010,
      tx_gasprice = 50000000000,
      oracle_value = (\<lambda>f. if f = ETH then Some 2000 else None) \<rparr>"

definition c2_params :: SwapParams where
  "c2_params = \<lparr> tokenIn = 11, tokenOut = 12, amountIn = 10, minAmountOut = 0,
      pricefeedId = ETH, deadline = 2000, recipient = 2 \<rparr>"




section \<open>The gas history and its average\<close>

lemma MAX_UINT256_ge: "100 \<le> MAX_UINT256"
  by (simp add: MAX_UINT256_def)

lemma averageLoop_char:
  "length gh = GAS_HISTORY_SIZE \<Longrightarrow> count + (GAS_HISTORY_SIZE - i) \<le> MAX_UINT256 \<Longrightarrow>
   acc \<le> MAX_UINT256 \<Longrightarrow>
   averageLoop gh i acc count =
     (if acc + sum_list (drop i gh) \<le> MAX_UINT256
      then Inr (acc + sum_list (drop i gh), count + length (filter (\<lambda>g. 0 < g) (drop i gh)))
      else Inl (Panic Overflow))"
proof (induction gh i acc count rule: averageLoop.induct)
  case (1 gh i acc count)
  show ?case
  proof (cases "i < GAS_HISTORY_SIZE")
    case False
    with "1.prems" show ?thesis
      by (subst averageLoop.simps) simp
  next
    case True
    with "1.prems" have il: "i < length gh" by simp
    have dr: "drop i gh = gh ! i # drop (i + 1) gh"
      using il by (simp add: Cons_nth_drop_Suc)
    show ?thesis
    proof (cases "0 < gh ! i")
      case False
      have "averageLoop gh i acc count = averageLoop gh (i + 1) acc count"
        using True il False by (subst averageLoop.simps) simp
      also have "\<dots> = (if acc + sum_list (drop (i + 1) gh) \<le> MAX_UINT256
        then Inr (acc + sum_list (drop (i + 1) gh),
                  count + length (filter (\<lambda>g. 0 < g) (drop (i + 1) gh)))
        else Inl (Panic Overflow))"
        using "1.IH"(2)[OF True il False] "1.prems" True by simp
      finally show ?thesis using False by (simp add: dr)
    next
      case pos: True
      show ?thesis
      proof (cases "acc + gh ! i \<le> MAX_UINT256")
        case False
        have "averageLoop gh i acc count = Inl (Panic Overflow)"
          using True il pos False by (subst averageLoop.simps) (simp add: checked_add_def)
        moreover have "\<not> acc + sum_list (drop i gh) \<le> MAX_UINT256"
          using False by (simp add: dr)
        ultimately show ?thesis by simp
      next
        case fit: True
        have c1: "count + 1 \<le> MAX_UINT256" using "1.prems" True by simp
        have "averageLoop gh i acc count = averageLoop gh (i + 1) (acc + gh ! i) (count + 1)"
          using True il pos fit c1 by (subst averageLoop.simps) (simp add: checked_add_def)
        also have "\<dots> = (if acc + gh ! i + sum_list (drop (i + 1) gh) \<le> MAX_UINT256
          then Inr (acc + gh ! i + sum_list (drop (i + 1) gh),
                    count + 1 + length (filter (\<lambda>g. 0 < g) (drop (i + 1) gh)))
          else Inl (Panic Overflow))"
          using "1.IH"(1)[OF True il pos, of "acc + gh ! i" "count + 1"] fit c1 "1.prems" True
          by (simp add: checked_add_def)
        finally show ?thesis using pos by (simp add: dr add.assoc)
      qed
    qed
  qed
qed

lemma sum_list_filter_pos: "sum_list (filter (\<lambda>g. 0 < g) (xs::nat list)) = sum_list xs"
  by (induction xs) auto

lemma getAverageGasPrice_char:
  assumes "length (gasHistory st) = GAS_HISTORY_SIZE"
  shows "getAverageGasPrice st =
     (if sum_list (gasHistory st) \<le> MAX_UINT256 then Inr (spec_average (gasHistory st))
      else Inl (Panic Overflow))"
proof -
  have "averageLoop (gasHistory st) 0 0 0 =
     (if sum_list (gasHistory st) \<le> MAX_UINT256
      then Inr (sum_list (gasHistory st), length (filter (\<lambda>g. 0 < g) (gasHistory st)))
      else Inl (Panic Overflow))"
    using averageLoop_char[OF assms, of 0 0 0]
    by (simp add: GAS_HISTORY_SIZE_def MAX_UINT256_def)
  then show ?thesis
    by (simp add: getAverageGasPrice_def andThen_def checked_div_def spec_average_def
        sum_list_filter_pos Let_def)
qed

lemma filter_pos_single_sample:
  assumes "i < n"
  shows "filter (\<lambda>g. 0 < g) ((replicate n (0::nat))[i := v]) = (if 0 < v then [v] else [])"
proof -
  have "(replicate n (0::nat))[i := v] = replicate i 0 @ v # replicate (n - Suc i) 0"
    using assms by (simp add: upd_conv_take_nth_drop min_def)
  then show ?thesis by simp
qed

lemma spec_average_single_sample:
  "i < n \<Longrightarrow> spec_average ((replicate n 0)[i := v]) = v"
  by (simp add: spec_average_def filter_pos_single_sample)

lemma sum_list_single_sample:
  "i < n \<Longrightarrow> sum_list ((replicate n (0::nat))[i := v]) = v"
  by (simp add: sum_list_update)

lemma spec_average_all_zero: "\<forall>g\<in>set gh. g = 0 \<Longrightarrow> spec_average gh = 0"
proof -
  assume "\<forall>g\<in>set gh. g = 0"
  then have "filter (\<lambda>g. 0 < g) gh = []" by (induction gh) auto
  then show ?thesis by (simp add: spec_average_def)
qed

lemma sum_list_all_zero: "\<forall>g\<in>set gh. g = (0::nat) \<Longrightarrow> sum_list gh = 0"
  by (induction gh) auto

lemma detector_constructor_inv: "detector_inv (detector_constructor deployer)"
  by (simp add: detector_inv_def detector_constructor_def GAS_HISTORY_SIZE_def)

lemma updateGasHistory_inv:
  assumes "detector_inv st"
  shows "updateGasHistory g st =
     Inr (st\<lparr> gasHistory := (gasHistory st)[gasHistoryIndex st := g],
              gasHistoryIndex := (gasHistoryIndex st + 1) mod GAS_HISTORY_SIZE \<rparr>)"
  using assms
  by (simp add: updateGasHistory_def detector_inv_def andThen_def checked_add_def
      GAS_HISTORY_SIZE_def MAX_UINT256_def)

lemma updateGasHistory_fields:
  "updateGasHistory g st = Inr st2 \<Longrightarrow>
     riskThreshold st2 = riskThreshold st \<and> minPriceDelta st2 = minPriceDelta st \<and>
     frontRunGasMultiplier st2 = frontRunGasMultiplier st \<and> owner st2 = owner st \<and>
     lastPrices st2 = lastPrices st \<and> lastUpdateTimestamp st2 = lastUpdateTimestamp st \<and>
     detector_log st2 = detector_log st \<and>
     gasHistory st2 = (gasHistory st)[gasHistoryIndex st := g] \<and>
     gasHistoryIndex st2 = (gasHistoryIndex st + 1) mod GAS_HISTORY_SIZE \<and>
     gasHistoryIndex st < length (gasHistory st)"
  by (auto simp: updateGasHistory_def andThen_def checked_add_def split: if_splits)

text \<open>
  C6: on a history of 100 slots, whenever \<open>getAverageGasPrice\<close> returns, it returns the
  mean (integer division) of the slots that hold a value above 0, and 0 when there is no
  such slot; it returns whenever the sum of the slots fits in a \<^verbatim>\<open>uint256\<close> (the only
  other outcome is the overflow panic of the checked addition). After one
  \<open>updateGasHistory 20000000000\<close> on the history of a fresh contract the average is exactly
  20000000000: the 99 empty slots do not dilute it.
\<close>

theorem getAverageGasPrice_mean_of_populated:
  assumes "length (gasHistory st) = GAS_HISTORY_SIZE"
  shows "(\<forall>a. getAverageGasPrice st = Inr a \<longrightarrow> a = spec_average (gasHistory st)) \<and>
         (sum_list (gasHistory st) \<le> MAX_UINT256 \<longrightarrow>
            getAverageGasPrice st = Inr (spec_average (gasHistory st))) \<and>
         ((\<forall>g\<in>set (gasHistory st). g = 0) \<longrightarrow> getAverageGasPrice st = Inr 0) \<and>
         (\<forall>deployer. \<exists>st1.
            updateGasHistory 20000000000 (detector_constructor deployer) = Inr st1 \<and>
            getAverageGasPrice st1 = Inr 20000000000)"
proof (intro conjI allI impI)
  fix a assume "getAverageGasPrice st = Inr a"
  then show "a = spec_average (gasHistory st)"
    by (simp add: getAverageGasPrice_char[OF assms] split: if_splits)
next
  assume "sum_list (gasHistory st) \<le> MAX_UINT256"
  then show "getAverageGasPrice st = Inr (spec_average (gasHistory st))"
    by (simp add: getAverageGasPrice_char[OF assms])
next
  assume z: "\<forall>g\<in>set (gasHistory st). g = 0"
  show "getAverageGasPrice st = Inr 0"
    by (simp add: getAverageGasPrice_char[OF assms] sum_list_all_zero[OF z]
        spec_average_all_zero[OF z])
next
  fix deployer
  let ?st0 = "detector_constructor deployer"
  let ?st1 = "?st0\<lparr> gasHistory := (gasHistory ?st0)[gasHistoryIndex ?st0 := 20000000000],
              gasHistoryIndex := (gasHistoryIndex ?st0 + 1) mod GAS_HISTORY_SIZE \<rparr>"
  have u: "updateGasHistory 20000000000 ?st0 = Inr ?st1"
    by (rule updateGasHistory_inv[OF detector_constructor_inv])
  have g: "gasHistory ?st1 = (replicate GAS_HISTORY_SIZE 0)[0 := 20000000000]"
    by (simp add: detector_constructor_def)
  have len: "length (gasHistory ?st1) = GAS_HISTORY_SIZE"
    by (simp add: detector_constructor_def)
  have "getAverageGasPrice ?st1 = Inr 20000000000"
    unfolding getAverageGasPrice_char[OF len] g
    by (simp add: spec_average_single_sample sum_list_single_sample
        GAS_HISTORY_SIZE_def MAX_UINT256_def)
  with u show "\<exists>st1. updateGasHistory 20000000000 ?st0 = Inr st1 \<and>
      getAverageGasPrice st1 = Inr 20000000000"
    by blast
qed

theorem getAverageGasPrice_mean_of_populated_witness:
  "length (gasHistory c6_state) = GAS_HISTORY_SIZE \<and>
   getAverageGasPrice c6_state = Inr 25000000000"
proof -
  have len: "length (gasHistory c6_state) = GAS_HISTORY_SIZE"
    by (simp add: c6_state_def GAS_HISTORY_SIZE_def)
  have s: "sum_list (gasHistory c6_state) \<le> MAX_UINT256"
    by (simp add: c6_state_def MAX_UINT256_def sum_list_replicate)
  have half: "(50000000000::nat) div Suc (Suc 0) = 25000000000"
    unfolding numeral_2_eq_2[symmetric] by simp
  have v: "spec_average (gasHistory c6_state) = 25000000000"
    by (simp add: c6_state_def spec_average_def half)
  have "getAverageGasPrice c6_state = Inr (spec_average (gasHistory c6_state))"
    using getAverageGasPrice_mean_of_populated[OF len] s by blast
  with len v show ?thesis by simp
qed


section \<open>The inline detection path\<close>

lemma detectMEV_unfold:
  assumes "msg_sender env = owner st" and "oracle_value env feedId = Some currentPrice"
  shows "detectMEV env feedId expectedPrice txGasPrice st =
     andThen (checked_mul (absDiff currentPrice expectedPrice) 10000) (\<lambda>m.
     andThen (checked_div m expectedPrice) (\<lambda>slippagePercentage.
     andThen (updateGasHistory txGasPrice
        (st\<lparr> lastPrices := (lastPrices st)(feedId := currentPrice),
             lastUpdateTimestamp := (lastUpdateTimestamp st)(feedId := block_timestamp env) \<rparr>))
       (\<lambda>st2.
     if slippagePercentage > riskThreshold st2 then
       Inr ((True, SANDWICH, slippagePercentage),
            st2\<lparr> detector_log := detector_log st2 @
              [MEVThreatDetected (msg_sender env) feedId SANDWICH slippagePercentage
                 (block_timestamp env),
               PriceAnomalyDetected feedId expectedPrice currentPrice
                 (absDiff currentPrice expectedPrice)] \<rparr>)
     else detectMEV_tail env feedId currentPrice txGasPrice st2)))"
  using assms unfolding detectMEV_def detectMEV_tail_def Let_def absDiff_def by simp

lemma detectMEV_Inr_owner_oracle:
  assumes "detectMEV env feedId expectedPrice txGasPrice st = Inr r"
  shows "msg_sender env = owner st \<and> (\<exists>currentPrice. oracle_value env feedId = Some currentPrice)"
  using assms by (cases "oracle_value env feedId") (auto simp: detectMEV_def split: if_splits)

lemma andThen_Inr: "andThen r f = Inr y \<longleftrightarrow> (\<exists>x. r = Inr x \<and> f x = Inr y)"
  by (cases r) (simp_all add: andThen_def)

lemma andThen_Inl: "andThen r f = Inl e \<longleftrightarrow> r = Inl e \<or> (\<exists>x. r = Inr x \<and> f x = Inl e)"
  by (cases r) (simp_all add: andThen_def)

lemma detectMEV_tail_Inr:
  assumes "detectMEV_tail env feedId currentPrice txGasPrice st2 = Inr (v, st')"
  shows "fst (snd v) \<noteq> SANDWICH \<and> st' = st2\<lparr> detector_log := detector_log st' \<rparr>"
  using assms unfolding detectMEV_tail_def
  by (auto simp: andThen_Inr split: if_splits)

lemma spec_slippageBp_absDiff:
  "spec_slippageBp observedPrice expectedPrice = absDiff observedPrice expectedPrice * 10000 div expectedPrice"
  by (simp add: spec_slippageBp_def absDiff_def)

lemma detectMEV_Inr_head:
  assumes r: "detectMEV env feedId expectedPrice txGasPrice st = Inr (v, st')"
    and o: "oracle_value env feedId = Some currentPrice"
  shows "expectedPrice \<noteq> 0 \<and> absDiff currentPrice expectedPrice * 10000 \<le> MAX_UINT256 \<and>
    (\<exists>st2. updateGasHistory txGasPrice
        (st\<lparr> lastPrices := (lastPrices st)(feedId := currentPrice),
             lastUpdateTimestamp := (lastUpdateTimestamp st)(feedId := block_timestamp env) \<rparr>)
        = Inr st2 \<and>
      st' = st2\<lparr> detector_log := detector_log st' \<rparr> \<and>
      (if spec_slippageBp currentPrice expectedPrice > riskThreshold st
       then v = (True, SANDWICH, spec_slippageBp currentPrice expectedPrice)
       else detectMEV_tail env feedId currentPrice txGasPrice st2 = Inr (v, st')))"
proof -
  have own: "msg_sender env = owner st"
    using detectMEV_Inr_owner_oracle[OF r] by simp
  note u = r[unfolded detectMEV_unfold[OF own o]]
  from u obtain m where m: "checked_mul (absDiff currentPrice expectedPrice) 10000 = Inr m"
    and u1: "andThen (checked_div m expectedPrice) (\<lambda>slippagePercentage.
     andThen (updateGasHistory txGasPrice
        (st\<lparr> lastPrices := (lastPrices st)(feedId := currentPrice),
             lastUpdateTimestamp := (lastUpdateTimestamp st)(feedId := block_timestamp env) \<rparr>))
       (\<lambda>st2.
     if slippagePercentage > riskThreshold st2 then
       Inr ((True, SANDWICH, slippagePercentage),
            st2\<lparr> detector_log := detector_log st2 @
              [MEVThreatDetected (msg_sender env) feedId SANDWICH slippagePercentage
                 (block_timestamp env),
               PriceAnomalyDetected feedId expectedPrice currentPrice
                 (absDiff currentPrice expectedPrice)] \<rparr>)
     else detectMEV_tail env feedId currentPrice txGasPrice st2)) = Inr (v, st')"
    unfolding andThen_Inr[of "checked_mul (absDiff currentPrice expectedPrice) 10000"] by blast
  from m have mv: "m = absDiff currentPrice expectedPrice * 10000"
    and fit: "absDiff currentPrice expectedPrice * 10000 \<le> MAX_UINT256"
    by (auto simp: checked_mul_def split: if_splits)
  from u1 obtain sl where sl: "checked_div m expectedPrice = Inr sl"
    and u2: "andThen (updateGasHistory txGasPrice
        (st\<lparr> lastPrices := (lastPrices st)(feedId := currentPrice),
             lastUpdateTimestamp := (lastUpdateTimestamp st)(feedId := block_timestamp env) \<rparr>))
       (\<lambda>st2.
     if sl > riskThreshold st2 then
       Inr ((True, SANDWICH, sl),
            st2\<lparr> detector_log := detector_log st2 @
              [MEVThreatDetected (msg_sender env) feedId SANDWICH sl
                 (block_timestamp env),
               PriceAnomalyDetected feedId expectedPrice currentPrice
                 (absDiff currentPrice expectedPrice)] \<rparr>)
     else detectMEV_tail env feedId currentPrice txGasPrice st2) = Inr (v, st')"
    unfolding andThen_Inr[of "checked_div m expectedPrice"] by blast
  from sl have nz: "expectedPrice \<noteq> 0" and slv: "sl = spec_slippageBp currentPrice expectedPrice"
    by (auto simp: checked_div_def mv spec_slippageBp_absDiff split: if_splits)
  from u2 obtain st2 where up: "updateGasHistory txGasPrice
        (st\<lparr> lastPrices := (lastPrices st)(feedId := currentPrice),
             lastUpdateTimestamp := (lastUpdateTimestamp st)(feedId := block_timestamp env) \<rparr>)
        = Inr st2"
    and u3: "(if sl > riskThreshold st2 then
       Inr ((True, SANDWICH, sl),
            st2\<lparr> detector_log := detector_log st2 @
              [MEVThreatDetected (msg_sender env) feedId SANDWICH sl
                 (block_timestamp env),
               PriceAnomalyDetected feedId expectedPrice currentPrice
                 (absDiff currentPrice expectedPrice)] \<rparr>)
     else detectMEV_tail env feedId currentPrice txGasPrice st2) = Inr (v, st')"
    unfolding andThen_Inr by blast
  have thr: "riskThreshold st2 = riskThreshold st"
    using updateGasHistory_fields[OF up] by simp
  have "st' = st2\<lparr> detector_log := detector_log st' \<rparr> \<and>
      (if sl > riskThreshold st
       then v = (True, SANDWICH, sl)
       else detectMEV_tail env feedId currentPrice txGasPrice st2 = Inr (v, st'))"
  proof (cases "sl > riskThreshold st")
    case True
    with u3 thr show ?thesis by auto
  next
    case False
    with u3 thr have t: "detectMEV_tail env feedId currentPrice txGasPrice st2 = Inr (v, st')"
      by simp
    with detectMEV_tail_Inr[OF t] False show ?thesis by simp
  qed
  with nz fit up slv show ?thesis by blast
qed

lemma detectArbitragePattern_fresh:
  assumes "lastPrices st feedId = currentPrice"
    and "lastUpdateTimestamp st feedId = block_timestamp env"
  shows "detectArbitragePattern env feedId currentPrice st = Inr False"
  using assms
  by (simp add: detectArbitragePattern_def Let_def andThen_def checked_sub_def checked_mul_def
      checked_div_def)

lemma cursor_moves: "(i + 1) mod GAS_HISTORY_SIZE \<noteq> i"
proof (cases "i < GAS_HISTORY_SIZE")
  case True
  then show ?thesis by (cases "i + 1 = GAS_HISTORY_SIZE") (auto simp: GAS_HISTORY_SIZE_def)
next
  case False
  have "(i + 1) mod GAS_HISTORY_SIZE < GAS_HISTORY_SIZE" by (simp add: GAS_HISTORY_SIZE_def)
  with False show ?thesis by linarith
qed

lemma spec_average_le_sum: "spec_average gh \<le> sum_list gh"
proof -
  have "sum_list (filter (\<lambda>g. 0 < g) gh) div length (filter (\<lambda>g. 0 < g) gh)
          \<le> sum_list (filter (\<lambda>g. 0 < g) gh)"
    by (rule div_le_dividend)
  then show ?thesis by (simp add: spec_average_def Let_def sum_list_filter_pos)
qed

lemma sum_list_update_le:
  fixes xs :: "nat list"
  assumes "k < length xs"
  shows "sum_list (xs[k := x]) \<le> sum_list xs + x"
  using assms by (simp add: sum_list_update)

lemma detectMEV_tail_returns:
  assumes len: "length (gasHistory st2) = GAS_HISTORY_SIZE"
    and room: "sum_list (gasHistory st2) * frontRunGasMultiplier st2 \<le> MAX_UINT256"
    and mult: "100 \<le> frontRunGasMultiplier st2"
    and g: "txGasPrice * 10000 \<le> MAX_UINT256"
    and fresh: "lastPrices st2 feedId = currentPrice"
      "lastUpdateTimestamp st2 feedId = block_timestamp env"
  shows "\<exists>verdict st'. detectMEV_tail env feedId currentPrice txGasPrice st2 = Inr (verdict, st')"
proof -
  let ?gh = "gasHistory st2" and ?m = "frontRunGasMultiplier st2"
  let ?avg = "spec_average ?gh"
  have "sum_list ?gh * 1 \<le> sum_list ?gh * ?m"
    using mult by (intro mult_le_mono2) simp
  then have "sum_list ?gh \<le> sum_list ?gh * ?m" by (simp only: mult_1_right)
  then have s: "sum_list ?gh \<le> MAX_UINT256" using room by (rule le_trans)
  have av: "getAverageGasPrice st2 = Inr ?avg"
    unfolding getAverageGasPrice_char[OF len] using s by simp
  have "?avg * ?m \<le> sum_list ?gh * ?m"
    by (intro mult_le_mono1) (rule spec_average_le_sum)
  then have am: "?avg * ?m \<le> MAX_UINT256" using room by (rule le_trans)
  have arb: "detectArbitragePattern env feedId currentPrice st2 = Inr False"
    by (rule detectArbitragePattern_fresh) (simp_all add: fresh)
  show ?thesis
  proof (cases "0 < ?avg \<and> txGasPrice > ?avg * ?m div 100")
    case True
    have "?avg * 100 \<le> ?avg * ?m" using mult by (intro mult_le_mono2)
    then have "?avg * 100 div 100 \<le> ?avg * ?m div 100" by (rule div_le_mono)
    then have ge: "?avg \<le> txGasPrice" using True by simp
    have "(txGasPrice - ?avg) * 10000 \<le> txGasPrice * 10000"
      by (intro mult_le_mono1) simp
    then have d: "(txGasPrice - ?avg) * 10000 \<le> MAX_UINT256" using g by (rule le_trans)
    show ?thesis
      using True ge d am
      by (auto simp add: detectMEV_tail_def av andThen_def detectFrontRunning_def
          checked_mul_def checked_div_def checked_sub_def)
  next
    case False
    then show ?thesis
      using am arb
      by (auto simp add: detectMEV_tail_def av andThen_def detectFrontRunning_def
          checked_mul_def checked_div_def)
  qed
qed

lemma detectMEV_returns:
  assumes own: "msg_sender env = owner st"
    and o: "oracle_value env feedId = Some currentPrice"
    and inv: "detector_inv st"
    and pos: "0 < expectedPrice"
    and fit: "absDiff currentPrice expectedPrice * 10000 \<le> MAX_UINT256"
    and mult: "100 \<le> frontRunGasMultiplier st"
    and room: "(sum_list (gasHistory st) + txGasPrice) * frontRunGasMultiplier st \<le> MAX_UINT256"
    and g: "txGasPrice * 10000 \<le> MAX_UINT256"
  shows "\<exists>verdict st'. detectMEV env feedId expectedPrice txGasPrice st = Inr (verdict, st')"
proof -
  let ?st1 = "st\<lparr> lastPrices := (lastPrices st)(feedId := currentPrice),
              lastUpdateTimestamp := (lastUpdateTimestamp st)(feedId := block_timestamp env) \<rparr>"
  let ?st2 = "?st1\<lparr> gasHistory := (gasHistory ?st1)[gasHistoryIndex ?st1 := txGasPrice],
              gasHistoryIndex := (gasHistoryIndex ?st1 + 1) mod GAS_HISTORY_SIZE \<rparr>"
  have inv1: "detector_inv ?st1" using inv by (simp add: detector_inv_def)
  have u: "updateGasHistory txGasPrice ?st1 = Inr ?st2"
    by (rule updateGasHistory_inv[OF inv1])
  have len2: "length (gasHistory ?st2) = GAS_HISTORY_SIZE"
    using inv by (simp add: detector_inv_def)
  have idx: "gasHistoryIndex st < length (gasHistory st)"
    using inv by (simp add: detector_inv_def)
  have "sum_list (gasHistory ?st2) \<le> sum_list (gasHistory st) + txGasPrice"
    using sum_list_update_le[OF idx] by simp
  then have "sum_list (gasHistory ?st2) * frontRunGasMultiplier st
               \<le> (sum_list (gasHistory st) + txGasPrice) * frontRunGasMultiplier st"
    by (rule mult_le_mono1)
  then have "sum_list (gasHistory ?st2) * frontRunGasMultiplier st \<le> MAX_UINT256"
    using room by (rule le_trans)
  then have room2: "sum_list (gasHistory ?st2) * frontRunGasMultiplier ?st2 \<le> MAX_UINT256"
    by simp
  have mult2: "100 \<le> frontRunGasMultiplier ?st2" using mult by simp
  from detectMEV_tail_returns[OF len2 room2 mult2 g, of feedId currentPrice env]
  obtain verdict st' where
    tail: "detectMEV_tail env feedId currentPrice txGasPrice ?st2 = Inr (verdict, st')"
    by auto
  show ?thesis
  proof (cases "absDiff currentPrice expectedPrice * 10000 div expectedPrice > riskThreshold st")
    case True
    have "\<exists>st'. detectMEV env feedId expectedPrice txGasPrice st
            = Inr ((True, SANDWICH, absDiff currentPrice expectedPrice * 10000 div expectedPrice),
                   st')"
      unfolding detectMEV_unfold[OF own o]
      using pos fit u True
      by (simp add: andThen_def checked_mul_def checked_div_def)
    then show ?thesis by blast
  next
    case False
    have "detectMEV env feedId expectedPrice txGasPrice st = Inr (verdict, st')"
      unfolding detectMEV_unfold[OF own o]
      using pos fit u tail False
      by (simp add: andThen_def checked_mul_def checked_div_def)
    then show ?thesis by blast
  qed
qed


text \<open>
  C9: every call of \<open>detectMEV\<close> that returns, whatever its verdict (so also
  \<open>(False, UNKNOWN, 0)\<close>), has written the state: the stored price of the feed is the
  oracle value of the call, its stored time the block time, the gas price of the call sits
  in the slot the cursor pointed to, and the cursor has advanced by one modulo 100. The
  cursor always differs afterwards, so the state after the call is never the state before.
  And calls do return: a call of the owner with an oracle value and a positive expected
  price returns a verdict whenever the detector's state is well formed, the multiplier is
  at least 100 and the products the code computes fit in \<^verbatim>\<open>uint256\<close>.
\<close>

theorem detectMEV_writes_state:
  "(\<forall>verdict st'. detectMEV env feedId expectedPrice txGasPrice st = Inr (verdict, st') \<longrightarrow>
      (\<exists>currentPrice. oracle_value env feedId = Some currentPrice \<and>
           lastPrices st' = (lastPrices st)(feedId := currentPrice) \<and>
           lastUpdateTimestamp st' = (lastUpdateTimestamp st)(feedId := block_timestamp env) \<and>
           gasHistoryIndex st < length (gasHistory st) \<and>
           gasHistory st' = (gasHistory st)[gasHistoryIndex st := txGasPrice] \<and>
           gasHistoryIndex st' = (gasHistoryIndex st + 1) mod GAS_HISTORY_SIZE \<and>
           st' \<noteq> st)) \<and>
   (msg_sender env = owner st \<and> oracle_value env feedId = Some price \<and> detector_inv st \<and>
    0 < expectedPrice \<and> absDiff price expectedPrice * 10000 \<le> MAX_UINT256 \<and>
    100 \<le> frontRunGasMultiplier st \<and>
    (sum_list (gasHistory st) + txGasPrice) * frontRunGasMultiplier st \<le> MAX_UINT256 \<and>
    txGasPrice * 10000 \<le> MAX_UINT256 \<longrightarrow>
      (\<exists>verdict st'. detectMEV env feedId expectedPrice txGasPrice st = Inr (verdict, st')))"
proof (intro conjI allI impI)
  fix verdict st'
  assume a: "detectMEV env feedId expectedPrice txGasPrice st = Inr (verdict, st')"
  from detectMEV_Inr_owner_oracle[OF a] obtain currentPrice where
    o: "oracle_value env feedId = Some currentPrice" by blast
  from detectMEV_Inr_head[OF a o] obtain st2 where
    u: "updateGasHistory txGasPrice
       (st\<lparr> lastPrices := (lastPrices st)(feedId := currentPrice),
            lastUpdateTimestamp := (lastUpdateTimestamp st)(feedId := block_timestamp env) \<rparr>)
     = Inr st2" and
    e: "st' = st2\<lparr> detector_log := detector_log st' \<rparr>"
    by blast
  note f = updateGasHistory_fields[OF u]
  have i: "gasHistoryIndex st' = (gasHistoryIndex st + 1) mod GAS_HISTORY_SIZE"
    by (subst e) (simp add: f)
  have "gasHistoryIndex st' \<noteq> gasHistoryIndex st"
    unfolding i by (rule cursor_moves)
  then have ne: "st' \<noteq> st" by auto
  have "lastPrices st' = (lastPrices st)(feedId := currentPrice)"
    by (subst e) (simp add: f)
  moreover have "lastUpdateTimestamp st' = (lastUpdateTimestamp st)(feedId := block_timestamp env)"
    by (subst e) (simp add: f)
  moreover have "gasHistory st' = (gasHistory st)[gasHistoryIndex st := txGasPrice]"
    by (subst e) (simp add: f)
  moreover have "gasHistoryIndex st < length (gasHistory st)"
    using f by simp
  ultimately show "\<exists>currentPrice. oracle_value env feedId = Some currentPrice \<and>
           lastPrices st' = (lastPrices st)(feedId := currentPrice) \<and>
           lastUpdateTimestamp st' = (lastUpdateTimestamp st)(feedId := block_timestamp env) \<and>
           gasHistoryIndex st < length (gasHistory st) \<and>
           gasHistory st' = (gasHistory st)[gasHistoryIndex st := txGasPrice] \<and>
           gasHistoryIndex st' = (gasHistoryIndex st + 1) mod GAS_HISTORY_SIZE \<and>
           st' \<noteq> st"
    using o i ne by blast
next
  assume h: "msg_sender env = owner st \<and> oracle_value env feedId = Some price \<and>
    detector_inv st \<and> 0 < expectedPrice \<and>
    absDiff price expectedPrice * 10000 \<le> MAX_UINT256 \<and>
    100 \<le> frontRunGasMultiplier st \<and>
    (sum_list (gasHistory st) + txGasPrice) * frontRunGasMultiplier st \<le> MAX_UINT256 \<and>
    txGasPrice * 10000 \<le> MAX_UINT256"
  from h have own: "msg_sender env = owner st"
    and o: "oracle_value env feedId = Some price"
    and inv: "detector_inv st" and pos: "0 < expectedPrice"
    and fit: "absDiff price expectedPrice * 10000 \<le> MAX_UINT256"
    and mult: "100 \<le> frontRunGasMultiplier st"
    and room: "(sum_list (gasHistory st) + txGasPrice) * frontRunGasMultiplier st
                 \<le> MAX_UINT256"
    and g: "txGasPrice * 10000 \<le> MAX_UINT256"
    by simp_all
  show "\<exists>verdict st'. detectMEV env feedId expectedPrice txGasPrice st = Inr (verdict, st')"
    by (rule detectMEV_returns[OF own o inv pos fit mult room g])
qed

lemma detectMEV_never_arbitrage:
  assumes "detectMEV env feedId expectedPrice txGasPrice st = Inr ((isThreat, threatType, riskScore), st')"
  shows "threatType \<noteq> ARBITRAGE"
proof -
  from detectMEV_Inr_owner_oracle[OF assms] obtain currentPrice where
    o: "oracle_value env feedId = Some currentPrice" by blast
  from detectMEV_Inr_head[OF assms o] obtain st2 where
    u: "updateGasHistory txGasPrice
       (st\<lparr> lastPrices := (lastPrices st)(feedId := currentPrice),
            lastUpdateTimestamp := (lastUpdateTimestamp st)(feedId := block_timestamp env) \<rparr>)
     = Inr st2" and
    c: "if spec_slippageBp currentPrice expectedPrice > riskThreshold st
       then (isThreat, threatType, riskScore) = (True, SANDWICH, spec_slippageBp currentPrice expectedPrice)
       else detectMEV_tail env feedId currentPrice txGasPrice st2 = Inr ((isThreat, threatType, riskScore), st')"
    by blast
  note f = updateGasHistory_fields[OF u]
  have a: "detectArbitragePattern env feedId currentPrice st2 = Inr False"
    by (rule detectArbitragePattern_fresh) (simp_all add: f)
  show ?thesis
  proof (cases "spec_slippageBp currentPrice expectedPrice > riskThreshold st")
    case True
    with c show ?thesis by simp
  next
    case False
    with c have "detectMEV_tail env feedId currentPrice txGasPrice st2 = Inr ((isThreat, threatType, riskScore), st')"
      by simp
    then show ?thesis
      unfolding detectMEV_tail_def by (auto simp: andThen_Inr a split: if_splits)
  qed
qed

lemma detectMEV_frontrun_needs_average:
  assumes "detectMEV env feedId expectedPrice txGasPrice st = Inr ((isThreat, FRONTRUN, riskScore), st')"
  shows "\<exists>avg. getAverageGasPrice st' = Inr avg \<and> 0 < avg"
proof -
  from detectMEV_Inr_owner_oracle[OF assms] obtain currentPrice where
    o: "oracle_value env feedId = Some currentPrice" by blast
  from detectMEV_Inr_head[OF assms o] obtain st2 where
    e: "st' = st2\<lparr> detector_log := detector_log st' \<rparr>" and
    c: "if spec_slippageBp currentPrice expectedPrice > riskThreshold st
       then (isThreat, FRONTRUN, riskScore) = (True, SANDWICH, spec_slippageBp currentPrice expectedPrice)
       else detectMEV_tail env feedId currentPrice txGasPrice st2 = Inr ((isThreat, FRONTRUN, riskScore), st')"
    by blast
  have g: "getAverageGasPrice st' = getAverageGasPrice st2"
    by (subst e) (simp add: getAverageGasPrice_def)
  from c have "detectMEV_tail env feedId currentPrice txGasPrice st2 = Inr ((isThreat, FRONTRUN, riskScore), st')"
    by (simp split: if_splits)
  then have "\<exists>avg. getAverageGasPrice st2 = Inr avg \<and> 0 < avg"
    unfolding detectMEV_tail_def by (auto simp: andThen_Inr split: if_splits)
  with g show ?thesis by simp
qed

lemma detectMEV_tail_quiet:
  assumes "getAverageGasPrice st2 = Inr avg"
    and "avg * frontRunGasMultiplier st2 \<le> MAX_UINT256"
    and "\<not> txGasPrice > avg * frontRunGasMultiplier st2 div 100"
    and "detectArbitragePattern env feedId currentPrice st2 = Inr False"
  shows "detectMEV_tail env feedId currentPrice txGasPrice st2 = Inr ((False, UNKNOWN, 0), st2)"
  using assms
  by (simp add: detectMEV_tail_def andThen_def detectFrontRunning_def checked_mul_def
      checked_div_def)

text \<open>A call on an empty history that shows no slippage above the threshold.\<close>

lemma detectMEV_cold_start_quiet:
  assumes own: "msg_sender env = owner st"
    and o: "oracle_value env feedId = Some currentPrice"
    and inv: "detector_inv st"
    and empty: "\<forall>x\<in>set (gasHistory st). x = 0"
    and pos: "0 < expectedPrice"
    and fit: "absDiff currentPrice expectedPrice * 10000 \<le> MAX_UINT256"
    and quiet: "\<not> spec_slippageBp currentPrice expectedPrice > riskThreshold st"
    and gfit: "txGasPrice * frontRunGasMultiplier st \<le> MAX_UINT256"
    and mult: "100 \<le> frontRunGasMultiplier st"
  shows "detectMEV env feedId expectedPrice txGasPrice st =
     Inr ((False, UNKNOWN, 0),
          st\<lparr> lastPrices := (lastPrices st)(feedId := currentPrice),
              lastUpdateTimestamp := (lastUpdateTimestamp st)(feedId := block_timestamp env),
              gasHistory := (gasHistory st)[gasHistoryIndex st := txGasPrice],
              gasHistoryIndex := (gasHistoryIndex st + 1) mod GAS_HISTORY_SIZE \<rparr>)"
proof -
  let ?st1 = "st\<lparr> lastPrices := (lastPrices st)(feedId := currentPrice),
              lastUpdateTimestamp := (lastUpdateTimestamp st)(feedId := block_timestamp env) \<rparr>"
  let ?st2 = "?st1\<lparr> gasHistory := (gasHistory ?st1)[gasHistoryIndex ?st1 := txGasPrice],
              gasHistoryIndex := (gasHistoryIndex ?st1 + 1) mod GAS_HISTORY_SIZE \<rparr>"
  have inv1: "detector_inv ?st1" using inv by (simp add: detector_inv_def)
  have u: "updateGasHistory txGasPrice ?st1 = Inr ?st2"
    by (rule updateGasHistory_inv[OF inv1])
  have rep: "gasHistory st = replicate GAS_HISTORY_SIZE 0"
    using replicate_length_same[of "gasHistory st" 0] empty inv
    by (simp add: detector_inv_def)
  have idx: "gasHistoryIndex st < GAS_HISTORY_SIZE" using inv by (simp add: detector_inv_def)
  have gh2: "gasHistory ?st2 = (replicate GAS_HISTORY_SIZE 0)[gasHistoryIndex st := txGasPrice]"
    by (simp add: rep)
  have len2: "length (gasHistory ?st2) = GAS_HISTORY_SIZE"
    using inv by (simp add: detector_inv_def)
  have gle: "txGasPrice \<le> MAX_UINT256"
  proof -
    have "txGasPrice * 1 \<le> txGasPrice * frontRunGasMultiplier st"
      using mult by (intro mult_le_mono2) simp
    then have "txGasPrice \<le> txGasPrice * frontRunGasMultiplier st"
      by (simp only: mult_1_right)
    then show ?thesis using gfit by (rule le_trans)
  qed
  have avg: "getAverageGasPrice ?st2 = Inr txGasPrice"
    unfolding getAverageGasPrice_char[OF len2] gh2
    using idx gle by (simp add: spec_average_single_sample sum_list_single_sample)
  have nofr: "\<not> txGasPrice > txGasPrice * frontRunGasMultiplier ?st2 div 100"
  proof -
    have "txGasPrice * 100 \<le> txGasPrice * frontRunGasMultiplier st"
      using mult by (intro mult_le_mono2)
    then have "txGasPrice * 100 div 100 \<le> txGasPrice * frontRunGasMultiplier st div 100"
      by (rule div_le_mono)
    then show ?thesis by simp
  qed
  have arb: "detectArbitragePattern env feedId currentPrice ?st2 = Inr False"
    by (rule detectArbitragePattern_fresh) simp_all
  have tail: "detectMEV_tail env feedId currentPrice txGasPrice ?st2 = Inr ((False, UNKNOWN, 0), ?st2)"
    using detectMEV_tail_quiet[OF avg _ nofr arb] gfit by simp
  have sl: "\<not> absDiff currentPrice expectedPrice * 10000 div expectedPrice > riskThreshold st"
    using quiet by (simp add: spec_slippageBp_absDiff)
  show ?thesis
    unfolding detectMEV_unfold[OF own o]
    using pos fit sl u tail
    by (simp add: andThen_def checked_mul_def checked_div_def)
qed

text \<open>A call whose slippage exceeds the threshold.\<close>

lemma detectMEV_sandwich_returns:
  assumes own: "msg_sender env = owner st"
    and o: "oracle_value env feedId = Some currentPrice"
    and inv: "detector_inv st"
    and pos: "0 < expectedPrice"
    and fit: "absDiff currentPrice expectedPrice * 10000 \<le> MAX_UINT256"
    and loud: "spec_slippageBp currentPrice expectedPrice > riskThreshold st"
  shows "\<exists>st'. detectMEV env feedId expectedPrice txGasPrice st =
     Inr ((True, SANDWICH, spec_slippageBp currentPrice expectedPrice), st')"
proof -
  let ?st1 = "st\<lparr> lastPrices := (lastPrices st)(feedId := currentPrice),
              lastUpdateTimestamp := (lastUpdateTimestamp st)(feedId := block_timestamp env) \<rparr>"
  have inv1: "detector_inv ?st1" using inv by (simp add: detector_inv_def)
  note u = updateGasHistory_inv[OF inv1, of txGasPrice]
  have sl: "absDiff currentPrice expectedPrice * 10000 div expectedPrice > riskThreshold st"
    using loud by (simp add: spec_slippageBp_absDiff)
  show ?thesis
    unfolding detectMEV_unfold[OF own o]
    using pos fit sl u
    by (simp add: andThen_def checked_mul_def checked_div_def spec_slippageBp_absDiff)
qed

text \<open>
  C3: for a call with \<open>expectedPrice > 0\<close> whose oracle value is \<open>observedPrice\<close>, a
  verdict that \<open>detectMEV\<close> returns is of type SANDWICH exactly when the slippage
  \<open>|observedPrice - expectedPrice| * 10000 div expectedPrice\<close> is strictly above
  \<open>riskThreshold\<close>; it then is a threat whose score is that slippage, and at a slippage
  equal to the threshold the verdict is not SANDWICH. When the slippage is above the
  threshold, the call of the owner does return that verdict (the product fitting in a
  \<^verbatim>\<open>uint256\<close>). The witness is the example of the specification: expected 2000,
  threshold 500, observed 2100 (slippage 500, no threat) and 2101 (slippage 505, SANDWICH).
\<close>

theorem detectMEV_sandwich_iff:
  assumes "0 < expectedPrice" and "oracle_value env feedId = Some observedPrice"
  shows "(\<forall>isThreat threatType riskScore st'.
            detectMEV env feedId expectedPrice txGasPrice st
              = Inr ((isThreat, threatType, riskScore), st') \<longrightarrow>
            (threatType = SANDWICH \<longleftrightarrow>
               spec_slippageBp observedPrice expectedPrice > riskThreshold st) \<and>
            (threatType = SANDWICH \<longrightarrow>
               isThreat \<and> riskScore = spec_slippageBp observedPrice expectedPrice) \<and>
            (spec_slippageBp observedPrice expectedPrice = riskThreshold st \<longrightarrow>
               threatType \<noteq> SANDWICH)) \<and>
         (msg_sender env = owner st \<and> detector_inv st \<and>
          absDiff observedPrice expectedPrice * 10000 \<le> MAX_UINT256 \<and>
          spec_slippageBp observedPrice expectedPrice > riskThreshold st \<longrightarrow>
            (\<exists>st'. detectMEV env feedId expectedPrice txGasPrice st
               = Inr ((True, SANDWICH, spec_slippageBp observedPrice expectedPrice), st')))"
proof -
  have part1: "\<forall>isThreat threatType riskScore st'.
            detectMEV env feedId expectedPrice txGasPrice st
              = Inr ((isThreat, threatType, riskScore), st') \<longrightarrow>
            (threatType = SANDWICH \<longleftrightarrow>
               spec_slippageBp observedPrice expectedPrice > riskThreshold st) \<and>
            (threatType = SANDWICH \<longrightarrow>
               isThreat \<and> riskScore = spec_slippageBp observedPrice expectedPrice) \<and>
            (spec_slippageBp observedPrice expectedPrice = riskThreshold st \<longrightarrow>
               threatType \<noteq> SANDWICH)"
  proof (intro allI impI)
    fix isThreat threatType riskScore st'
    assume r: "detectMEV env feedId expectedPrice txGasPrice st
                = Inr ((isThreat, threatType, riskScore), st')"
    from detectMEV_Inr_head[OF r assms(2)] obtain st2 where
      c: "if spec_slippageBp observedPrice expectedPrice > riskThreshold st
         then (isThreat, threatType, riskScore)
                = (True, SANDWICH, spec_slippageBp observedPrice expectedPrice)
         else detectMEV_tail env feedId observedPrice txGasPrice st2
                = Inr ((isThreat, threatType, riskScore), st')"
      by blast
    have t: "\<not> spec_slippageBp observedPrice expectedPrice > riskThreshold st \<Longrightarrow>
               threatType \<noteq> SANDWICH"
      using c detectMEV_tail_Inr[of env feedId observedPrice txGasPrice st2
          "(isThreat, threatType, riskScore)" st']
      by simp
    show "(threatType = SANDWICH \<longleftrightarrow>
               spec_slippageBp observedPrice expectedPrice > riskThreshold st) \<and>
            (threatType = SANDWICH \<longrightarrow>
               isThreat \<and> riskScore = spec_slippageBp observedPrice expectedPrice) \<and>
            (spec_slippageBp observedPrice expectedPrice = riskThreshold st \<longrightarrow>
               threatType \<noteq> SANDWICH)"
      using c t
      by (cases "spec_slippageBp observedPrice expectedPrice > riskThreshold st") auto
  qed
  have part2: "msg_sender env = owner st \<and> detector_inv st \<and>
          absDiff observedPrice expectedPrice * 10000 \<le> MAX_UINT256 \<and>
          spec_slippageBp observedPrice expectedPrice > riskThreshold st \<longrightarrow>
            (\<exists>st'. detectMEV env feedId expectedPrice txGasPrice st
               = Inr ((True, SANDWICH, spec_slippageBp observedPrice expectedPrice), st'))"
    using detectMEV_sandwich_returns[OF _ assms(2) _ assms(1)] by blast
  show ?thesis by (intro conjI part1 part2)
qed

lemma quiet_env_simps:
  "msg_sender (quiet_env now price) = 1"
  "block_timestamp (quiet_env now price) = now"
  "oracle_value (quiet_env now price) ETH = Some price"
  by (simp_all add: quiet_env_def)

lemma detector_constructor_simps:
  "owner (detector_constructor d) = d"
  "riskThreshold (detector_constructor d) = 500"
  "minPriceDelta (detector_constructor d) = 100"
  "frontRunGasMultiplier (detector_constructor d) = 120"
  "gasHistory (detector_constructor d) = replicate GAS_HISTORY_SIZE 0"
  "gasHistoryIndex (detector_constructor d) = 0"
  "lastPrices (detector_constructor d) = (\<lambda>_. 0)"
  "lastUpdateTimestamp (detector_constructor d) = (\<lambda>_. 0)"
  by (simp_all add: detector_constructor_def)

lemma slippage_examples:
  "spec_slippageBp 2100 2000 = 500" "spec_slippageBp 2101 2000 = 505"
  "spec_slippageBp 2000 2000 = 0" "spec_slippageBp 2100 2100 = 0"
  by (simp_all add: spec_slippageBp_def)

lemma quiet_call_on_fresh_detector:
  assumes "\<not> spec_slippageBp price expectedPrice > 500" and "0 < expectedPrice"
    and "absDiff price expectedPrice * 10000 \<le> MAX_UINT256"
  shows "detectMEV (quiet_env now price) ETH expectedPrice 20000000000 (detector_constructor 1) =
     Inr ((False, UNKNOWN, 0),
       (detector_constructor 1)\<lparr> lastPrices := (\<lambda>_. 0)(ETH := price),
          lastUpdateTimestamp := (\<lambda>_. 0)(ETH := now),
          gasHistory := (replicate GAS_HISTORY_SIZE 0)[0 := 20000000000],
          gasHistoryIndex := 1 \<rparr>)"
proof -
  have "detectMEV (quiet_env now price) ETH expectedPrice 20000000000 (detector_constructor 1) =
     Inr ((False, UNKNOWN, 0),
       (detector_constructor 1)\<lparr>
          lastPrices := (lastPrices (detector_constructor 1))(ETH := price),
          lastUpdateTimestamp := (lastUpdateTimestamp (detector_constructor 1))
             (ETH := block_timestamp (quiet_env now price)),
          gasHistory := (gasHistory (detector_constructor 1))
             [gasHistoryIndex (detector_constructor 1) := 20000000000],
          gasHistoryIndex := (gasHistoryIndex (detector_constructor 1) + 1) mod GAS_HISTORY_SIZE \<rparr>)"
    using assms
    by (intro detectMEV_cold_start_quiet detector_constructor_inv)
       (simp_all add: quiet_env_simps detector_constructor_simps MAX_UINT256_def)
  then show ?thesis
    by (simp add: quiet_env_simps detector_constructor_simps GAS_HISTORY_SIZE_def)
qed

theorem detectMEV_writes_state_witness:
  "\<exists>st'. detectMEV (quiet_env 1010 2000) ETH 2000 20000000000 (detector_constructor 1)
            = Inr ((False, UNKNOWN, 0), st') \<and>
         lastPrices st' ETH = 2000 \<and> lastUpdateTimestamp st' ETH = 1010 \<and>
         gasHistory st' ! 0 = 20000000000 \<and> gasHistoryIndex st' = 1 \<and>
         st' \<noteq> detector_constructor 1"
proof -
  note t = detectMEV_writes_state[where env = "quiet_env 1010 2000" and feedId = ETH
      and expectedPrice = 2000 and txGasPrice = 20000000000
      and st = "detector_constructor 1" and price = 2000]
  have hyp: "msg_sender (quiet_env 1010 2000) = owner (detector_constructor 1) \<and>
    oracle_value (quiet_env 1010 2000) ETH = Some 2000 \<and>
    detector_inv (detector_constructor 1) \<and> 0 < (2000::nat) \<and>
    absDiff 2000 2000 * 10000 \<le> MAX_UINT256 \<and>
    100 \<le> frontRunGasMultiplier (detector_constructor 1) \<and>
    (sum_list (gasHistory (detector_constructor 1)) + 20000000000)
       * frontRunGasMultiplier (detector_constructor 1) \<le> MAX_UINT256 \<and>
    (20000000000::nat) * 10000 \<le> MAX_UINT256"
    by (simp add: quiet_env_simps detector_constructor_simps detector_inv_def absDiff_def
        sum_list_replicate MAX_UINT256_def GAS_HISTORY_SIZE_def)
  from t[THEN conjunct2, THEN mp, OF hyp] obtain verdict st' where
    r: "detectMEV (quiet_env 1010 2000) ETH 2000 20000000000 (detector_constructor 1)
          = Inr (verdict, st')"
    by blast
  have q: "detectMEV (quiet_env 1010 2000) ETH 2000 20000000000 (detector_constructor 1)
          = Inr ((False, UNKNOWN, 0),
       (detector_constructor 1)\<lparr> lastPrices := (\<lambda>_. 0)(ETH := 2000),
          lastUpdateTimestamp := (\<lambda>_. 0)(ETH := 1010),
          gasHistory := (replicate GAS_HISTORY_SIZE 0)[0 := 20000000000],
          gasHistoryIndex := 1 \<rparr>)"
    by (rule quiet_call_on_fresh_detector)
       (simp_all add: slippage_examples absDiff_def MAX_UINT256_def)
  from r q have v: "verdict = (False, UNKNOWN, 0)" by simp
  from t[THEN conjunct1, rule_format, OF r] have
    "lastPrices st' ETH = 2000 \<and> lastUpdateTimestamp st' ETH = 1010 \<and>
     gasHistory st' ! 0 = 20000000000 \<and> gasHistoryIndex st' = 1 \<and>
     st' \<noteq> detector_constructor 1"
    by (auto simp: quiet_env_simps detector_constructor_simps GAS_HISTORY_SIZE_def)
  with r v show ?thesis by blast
qed

theorem detectMEV_sandwich_iff_witness:
  "spec_slippageBp 2101 2000 = 505 \<and>
   (\<exists>st'. detectMEV (quiet_env 1010 2101) ETH 2000 20000000000 (detector_constructor 1)
            = Inr ((True, SANDWICH, 505), st')) \<and>
   spec_slippageBp 2100 2000 = 500 \<and>
   (\<exists>st'. detectMEV (quiet_env 1010 2100) ETH 2000 20000000000 (detector_constructor 1)
            = Inr ((False, UNKNOWN, 0), st'))"
proof -
  have p: "(0::nat) < 2000" by simp
  have o: "oracle_value (quiet_env 1010 2101) ETH = Some 2101" by (rule quiet_env_simps)
  have h: "msg_sender (quiet_env 1010 2101) = owner (detector_constructor 1) \<and>
        detector_inv (detector_constructor 1) \<and>
        absDiff 2101 2000 * 10000 \<le> MAX_UINT256 \<and>
        spec_slippageBp 2101 2000 > riskThreshold (detector_constructor 1)"
    by (simp add: quiet_env_simps detector_constructor_simps detector_constructor_inv
        slippage_examples absDiff_def MAX_UINT256_def)
  have "\<exists>st'. detectMEV (quiet_env 1010 2101) ETH 2000 20000000000 (detector_constructor 1)
            = Inr ((True, SANDWICH, spec_slippageBp 2101 2000), st')"
    by (rule detectMEV_sandwich_iff[OF p o, of 20000000000 "detector_constructor 1",
          THEN conjunct2, THEN mp, OF h])
  moreover have "\<exists>st'. detectMEV (quiet_env 1010 2100) ETH 2000 20000000000 (detector_constructor 1)
            = Inr ((False, UNKNOWN, 0), st')"
    using quiet_call_on_fresh_detector[of 2100 2000 1010]
    by (simp add: slippage_examples absDiff_def MAX_UINT256_def)
  ultimately show ?thesis by (simp add: slippage_examples)
qed

lemma averageLoop_no_division_by_zero:
  "averageLoop gh i acc count \<noteq> Inl (Panic DivisionByZero)"
proof (induction gh i acc count rule: averageLoop.induct)
  case (1 gh i acc count)
  show ?case
    by (subst averageLoop.simps)
       (use 1 in \<open>auto simp: checked_add_def split: sum.splits\<close>)
qed

lemma getAverageGasPrice_no_division_by_zero:
  "getAverageGasPrice st \<noteq> Inl (Panic DivisionByZero)"
  using averageLoop_no_division_by_zero[of "gasHistory st" 0 0 0]
  by (auto simp: getAverageGasPrice_def andThen_Inl checked_div_def split: if_splits)

lemma updateGasHistory_no_division_by_zero:
  "updateGasHistory g st \<noteq> Inl (Panic DivisionByZero)"
  by (auto simp: updateGasHistory_def andThen_Inl checked_add_def split: if_splits)

lemma detectFrontRunning_no_division_by_zero:
  "detectFrontRunning g avg st \<noteq> Inl (Panic DivisionByZero)"
  by (auto simp: detectFrontRunning_def andThen_Inl checked_mul_def checked_div_def split: if_splits)

lemma detectArbitragePattern_no_division_by_zero:
  "detectArbitragePattern env feedId currentPrice st \<noteq> Inl (Panic DivisionByZero)"
  by (auto simp: detectArbitragePattern_def Let_def andThen_Inl checked_mul_def checked_div_def
      checked_sub_def split: if_splits)

lemma detectFrontRunning_Inr:
  "detectFrontRunning g avg st = Inr b \<Longrightarrow>
     avg * frontRunGasMultiplier st \<le> MAX_UINT256 \<and>
     b = (g > avg * frontRunGasMultiplier st div 100)"
  by (auto simp: detectFrontRunning_def andThen_Inr checked_mul_def checked_div_def split: if_splits)

lemma andThen_avoids:
  assumes "r \<noteq> Inl e" and "\<And>x. r = Inr x \<Longrightarrow> f x \<noteq> Inl e"
  shows "andThen r f \<noteq> Inl e"
  using assms by (cases r) (simp_all add: andThen_def)

lemma checked_no_division_by_zero:
  "checked_add a b \<noteq> Inl (Panic DivisionByZero)"
  "checked_sub a b \<noteq> Inl (Panic DivisionByZero)"
  "checked_mul a b \<noteq> Inl (Panic DivisionByZero)"
  "0 < b \<Longrightarrow> checked_div a b \<noteq> Inl (Panic DivisionByZero)"
  by (simp_all add: checked_add_def checked_sub_def checked_mul_def checked_div_def)

lemma detectMEV_tail_no_division_by_zero:
  "detectMEV_tail env feedId currentPrice txGasPrice st2 \<noteq> Inl (Panic DivisionByZero)"
  unfolding detectMEV_tail_def
proof (rule andThen_avoids[OF getAverageGasPrice_no_division_by_zero])
  fix avg
  show "andThen (if 0 < avg then detectFrontRunning txGasPrice avg st2 else Inr False)
     (\<lambda>frontRun.
        if frontRun then
          andThen (checked_sub txGasPrice avg) (\<lambda>d.
          andThen (checked_mul d 10000) (\<lambda>dm.
          andThen (checked_div dm avg) (\<lambda>riskScore.
          Inr ((True, FRONTRUN, riskScore),
               st2\<lparr> detector_log := detector_log st2 @
                 [MEVThreatDetected (msg_sender env) feedId FRONTRUN riskScore
                    (block_timestamp env)] \<rparr>))))
        else
          andThen (detectArbitragePattern env feedId currentPrice st2) (\<lambda>arbitrage.
          if arbitrage then
            Inr ((True, ARBITRAGE, 300),
                 st2\<lparr> detector_log := detector_log st2 @
                   [MEVThreatDetected (msg_sender env) feedId ARBITRAGE 300
                      (block_timestamp env)] \<rparr>)
          else Inr ((False, UNKNOWN, 0), st2)))
     \<noteq> Inl (Panic DivisionByZero)"
  proof (rule andThen_avoids)
    show "(if 0 < avg then detectFrontRunning txGasPrice avg st2 else Inr False)
            \<noteq> Inl (Panic DivisionByZero)"
      by (simp add: detectFrontRunning_no_division_by_zero)
  next
    fix frontRun
    assume fr: "(if 0 < avg then detectFrontRunning txGasPrice avg st2 else Inr False)
                  = Inr frontRun"
    show "(if frontRun then
          andThen (checked_sub txGasPrice avg) (\<lambda>d.
          andThen (checked_mul d 10000) (\<lambda>dm.
          andThen (checked_div dm avg) (\<lambda>riskScore.
          Inr ((True, FRONTRUN, riskScore),
               st2\<lparr> detector_log := detector_log st2 @
                 [MEVThreatDetected (msg_sender env) feedId FRONTRUN riskScore
                    (block_timestamp env)] \<rparr>))))
        else
          andThen (detectArbitragePattern env feedId currentPrice st2) (\<lambda>arbitrage.
          if arbitrage then
            Inr ((True, ARBITRAGE, 300),
                 st2\<lparr> detector_log := detector_log st2 @
                   [MEVThreatDetected (msg_sender env) feedId ARBITRAGE 300
                      (block_timestamp env)] \<rparr>)
          else Inr ((False, UNKNOWN, 0), st2)))
        \<noteq> Inl (Panic DivisionByZero)"
    proof (cases frontRun)
      case True
      with fr have pos: "0 < avg" by (simp split: if_splits)
      from True show ?thesis
        by (simp only: if_True)
           (intro andThen_avoids checked_no_division_by_zero pos, simp)
    next
      case False
      then show ?thesis
        by (simp only: if_False)
           (intro andThen_avoids detectArbitragePattern_no_division_by_zero, simp)
    qed
  qed
qed

lemma detectMEV_positive_no_division_by_zero:
  assumes "0 < expectedPrice"
  shows "detectMEV env feedId expectedPrice txGasPrice st \<noteq> Inl (Panic DivisionByZero)"
proof (cases "msg_sender env = owner st")
  case False
  then show ?thesis by (simp add: detectMEV_def)
next
  case own: True
  show ?thesis
  proof (cases "oracle_value env feedId")
    case None
    with own show ?thesis by (simp add: detectMEV_def)
  next
    case (Some currentPrice)
    show ?thesis
      unfolding detectMEV_unfold[OF own Some]
      by (intro andThen_avoids checked_no_division_by_zero assms
            updateGasHistory_no_division_by_zero)
         (simp add: detectMEV_tail_no_division_by_zero)
  qed
qed

lemma detectMEV_zero_fails:
  "\<exists>e. detectMEV env feedId 0 txGasPrice st = Inl e"
proof (cases "msg_sender env = owner st")
  case False
  then show ?thesis by (simp add: detectMEV_def)
next
  case own: True
  show ?thesis
  proof (cases "oracle_value env feedId")
    case None
    with own show ?thesis by (simp add: detectMEV_def)
  next
    case (Some currentPrice)
    show ?thesis
      unfolding detectMEV_unfold[OF own Some]
      by (simp add: andThen_def checked_mul_def checked_div_def)
  qed
qed

lemma detectMEV_zero_panics:
  assumes "msg_sender env = owner st" and "oracle_value env feedId = Some p"
    and "p * 10000 \<le> MAX_UINT256"
  shows "detectMEV env feedId 0 txGasPrice st = Inl (Panic DivisionByZero)"
  unfolding detectMEV_unfold[OF assms(1,2)]
  using assms(3) by (simp add: andThen_def checked_mul_def checked_div_def absDiff_def)

text \<open>
  C4, the claim as stated fails: the owner's call with \<open>expectedPrice = 0\<close> does not end
  with an input-validation error of its own but with the arithmetic panic of the division.
\<close>

theorem detectMEV_zero_expectedPrice_counterexample:
  "detectMEV (quiet_env 1010 2000) ETH 0 20000000000 (detector_constructor 1)
     = Inl (Panic DivisionByZero)"
  by (rule detectMEV_zero_panics[where p = 2000])
     (simp_all add: quiet_env_simps detector_constructor_simps MAX_UINT256_def)

text \<open>
  C4, amended: for \<open>expectedPrice > 0\<close> no call of \<open>detectMEV\<close> ends in the
  division-by-zero panic. For \<open>expectedPrice = 0\<close> no call returns a verdict: every call
  fails, and the call of the owner with an oracle value \<open>p\<close> (\<open>p * 10000\<close> fitting in a
  \<^verbatim>\<open>uint256\<close>) fails with the division-by-zero panic of the checked division; the contract
  has no input check and no error of its own for this case.
\<close>

theorem detectMEV_division_by_zero:
  "(0 < expectedPrice \<longrightarrow>
      detectMEV env feedId expectedPrice txGasPrice st \<noteq> Inl (Panic DivisionByZero)) \<and>
   (expectedPrice = 0 \<longrightarrow>
      (\<exists>e. detectMEV env feedId expectedPrice txGasPrice st = Inl e) \<and>
      (msg_sender env = owner st \<and>
       (\<exists>p. oracle_value env feedId = Some p \<and> p * 10000 \<le> MAX_UINT256) \<longrightarrow>
         detectMEV env feedId expectedPrice txGasPrice st = Inl (Panic DivisionByZero)))"
  using detectMEV_positive_no_division_by_zero[of expectedPrice env feedId txGasPrice st]
    detectMEV_zero_fails[of env feedId txGasPrice st]
    detectMEV_zero_panics[of env st feedId _ txGasPrice]
  by auto

theorem detectMEV_division_by_zero_witness:
  "detectMEV (quiet_env 1010 2000) ETH 2000 20000000000 (detector_constructor 1)
     \<noteq> Inl (Panic DivisionByZero) \<and>
   detectMEV (quiet_env 1010 2000) ETH 0 20000000000 (detector_constructor 1)
     = Inl (Panic DivisionByZero)"
proof -
  have a: "msg_sender (quiet_env 1010 2000) = owner (detector_constructor 1) \<and>
       (\<exists>p. oracle_value (quiet_env 1010 2000) ETH = Some p \<and> p * 10000 \<le> MAX_UINT256)"
    by (simp add: quiet_env_simps detector_constructor_simps MAX_UINT256_def)
  have "detectMEV (quiet_env 1010 2000) ETH 2000 20000000000 (detector_constructor 1)
     \<noteq> Inl (Panic DivisionByZero)"
    by (rule detectMEV_division_by_zero[of 2000, THEN conjunct1, THEN mp]) simp
  moreover have "detectMEV (quiet_env 1010 2000) ETH 0 20000000000 (detector_constructor 1)
     = Inl (Panic DivisionByZero)"
    by (rule detectMEV_division_by_zero[of 0, THEN conjunct2, THEN mp, THEN conjunct2,
          THEN mp, OF _ a]) simp
  ultimately show ?thesis by (rule conjI)
qed

lemma c1_state_simps:
  "owner c1_state = 1" "riskThreshold c1_state = 500" "minPriceDelta c1_state = 100"
  "frontRunGasMultiplier c1_state = 120"
  "gasHistory c1_state = replicate GAS_HISTORY_SIZE 0" "gasHistoryIndex c1_state = 0"
  "lastPrices c1_state ETH = 2000" "lastUpdateTimestamp c1_state ETH = 1000"
  by (simp_all add: c1_state_def detector_constructor_def)

text \<open>
  C1, at a concrete input: the feed holds the observation (2000, time 1000); ten seconds
  later the oracle reports 2100, a change of 5 percent, and the caller expects 2100, so
  there is no slippage, and the gas history is empty, so there is no front-run. On the
  state before the call \<open>detectArbitragePattern\<close> answers \<open>True\<close>, but \<open>detectMEV\<close>
  overwrites the observation before it asks, and returns \<open>(False, UNKNOWN, 0)\<close>.
\<close>

theorem detectMEV_misses_arbitrage:
  "lastPrices c1_state ETH = 2000 \<and> lastUpdateTimestamp c1_state ETH = 1000 \<and>
   block_timestamp (quiet_env 1010 2100) = 1010 \<and>
   oracle_value (quiet_env 1010 2100) ETH = Some 2100 \<and>
   detectArbitragePattern (quiet_env 1010 2100) ETH 2100 c1_state = Inr True \<and>
   map_sum id fst (detectMEV (quiet_env 1010 2100) ETH 2100 20000000000 c1_state)
     = Inr (False, UNKNOWN, 0)"
proof -
  have arb: "detectArbitragePattern (quiet_env 1010 2100) ETH 2100 c1_state = Inr True"
    by (simp add: detectArbitragePattern_def c1_state_simps quiet_env_simps Let_def andThen_def
        checked_sub_def checked_mul_def checked_div_def MAX_UINT256_def)
  have inv: "detector_inv c1_state"
    by (simp add: detector_inv_def c1_state_simps GAS_HISTORY_SIZE_def)
  have "detectMEV (quiet_env 1010 2100) ETH 2100 20000000000 c1_state =
     Inr ((False, UNKNOWN, 0),
          c1_state\<lparr> lastPrices := (lastPrices c1_state)(ETH := 2100),
              lastUpdateTimestamp := (lastUpdateTimestamp c1_state)
                (ETH := block_timestamp (quiet_env 1010 2100)),
              gasHistory := (gasHistory c1_state)[gasHistoryIndex c1_state := 20000000000],
              gasHistoryIndex := (gasHistoryIndex c1_state + 1) mod GAS_HISTORY_SIZE \<rparr>)"
    by (intro detectMEV_cold_start_quiet inv)
       (simp_all add: quiet_env_simps c1_state_simps slippage_examples absDiff_def MAX_UINT256_def)
  then have "map_sum id fst (detectMEV (quiet_env 1010 2100) ETH 2100 20000000000 c1_state)
     = Inr (False, UNKNOWN, 0)"
    by simp
  with arb show ?thesis by (simp add: c1_state_simps quiet_env_simps)
qed

section \<open>The analytics score\<close>

text \<open>
  C5, at a concrete input of the analytics path: with an average of 0 the threshold of
  \<open>detectFrontRun\<close> is 0, so a transaction with gas price 1 whose target was seen in a
  recent transaction is reported as a front-run, and \<open>calculateRiskScore\<close> adds the 20
  points. (On the inline path the test \<open>avgGasPrice > 0\<close> comes first:
  \<open>detectMEV_frontrun_needs_average\<close>.)
\<close>

theorem detectFrontRun_fires_on_zero_average:
  "detectFrontRun [c5_recentTx] c5_transaction 0 = True \<and>
   calculateRiskScore [c5_recentTx] c5_transaction 0 100 = 20"
  by (simp add: detectFrontRun_def calculateRiskScore_def gasPoints_def valuePoints_def
      patternPoints_def detectArbitrage_def c5_recentTx_def c5_transaction_def bigint_div_def
      FRONT_RUN_GAS_MULTIPLIER_def SANDWICH_TIME_WINDOW_def)

text \<open>
  C7, the claim as stated fails: with the average, the recent transactions and everything
  else fixed, raising the gas price from 100 to 110 (ratio 1.0 to 1.1) lowers the score
  from 25 to 0, because \<open>detectSandwich\<close> asks for a recent transaction with a gas price
  above the one scored.
\<close>

theorem calculateRiskScore_gas_counterexample:
  "calculateRiskScore [c7_recentTx] (c7_transaction 100) 100 100 = 25 \<and>
   calculateRiskScore [c7_recentTx] (c7_transaction 110) 100 100 = 0"
  by (simp add: detectFrontRun_def calculateRiskScore_def gasPoints_def valuePoints_def
      patternPoints_def detectArbitrage_def c7_recentTx_def c7_transaction_def bigint_div_def
      FRONT_RUN_GAS_MULTIPLIER_def SANDWICH_TIME_WINDOW_def)

lemma gasPoints_range: "0 \<le> gasPoints t avg \<and> gasPoints t avg \<le> 30"
  by (simp add: gasPoints_def Let_def)

lemma valuePoints_range: "0 \<le> valuePoints t \<and> valuePoints t \<le> 25"
  by (simp add: valuePoints_def Let_def)

lemma patternPoints_range:
  "0 \<le> patternPoints recent t avg ts \<and> patternPoints recent t avg ts \<le> 60"
  by (simp add: patternPoints_def)

lemma calculateRiskScore_range:
  "0 \<le> calculateRiskScore recent t avg ts \<and> calculateRiskScore recent t avg ts \<le> 100"
  using gasPoints_range[of t avg] valuePoints_range[of t] patternPoints_range[of recent t avg ts]
  by (simp add: calculateRiskScore_def Let_def)

lemma tier_mono:
  fixes r r' :: rat
  assumes "r \<le> r'"
  shows "(if r > 2 then 30 else if r > 3 / 2 then 20 else if r > 6 / 5 then (10::int) else 0)
       \<le> (if r' > 2 then 30 else if r' > 3 / 2 then 20 else if r' > 6 / 5 then 10 else 0)"
  using assms by auto

lemma gasPoints_mono_gasPrice:
  assumes "trx_gasPrice t \<le> g'"
  shows "gasPoints t avg \<le> gasPoints (t\<lparr> trx_gasPrice := g' \<rparr>) avg"
proof (cases "avg > 0")
  case False
  then show ?thesis by (simp add: gasPoints_def)
next
  case True
  have "(of_int (trx_gasPrice t) :: rat) / of_int avg \<le> of_int g' / of_int avg"
    using assms True by (simp add: divide_right_mono)
  from tier_mono[OF this] True show ?thesis by (simp add: gasPoints_def Let_def)
qed

lemma gasPoints_mono_average:
  assumes "0 < avg'" and "avg' \<le> avg" and "0 \<le> trx_gasPrice t"
  shows "gasPoints t avg \<le> gasPoints t avg'"
proof -
  have "(of_int (trx_gasPrice t) :: rat) / of_int avg \<le> of_int (trx_gasPrice t) / of_int avg'"
    using assms by (intro divide_left_mono) simp_all
  from tier_mono[OF this] assms show ?thesis by (simp add: gasPoints_def Let_def)
qed

lemma valuePoints_mono:
  assumes "trx_value t \<le> v'"
  shows "valuePoints t \<le> valuePoints (t\<lparr> trx_value := v' \<rparr>)"
  using assms by (simp add: valuePoints_def Let_def)

lemma detectSandwich_value:
  "detectSandwich recent (t\<lparr> trx_value := v' \<rparr>) ts = detectSandwich recent t ts"
  by (induction recent) auto

lemma sameTargetRecent_value:
  "sameTargetRecent recent (t\<lparr> trx_value := v' \<rparr>) = sameTargetRecent recent t"
  by (induction recent) auto

lemma sameTargetRecent_gasPrice:
  "sameTargetRecent recent (t\<lparr> trx_gasPrice := g' \<rparr>) = sameTargetRecent recent t"
  by (induction recent) auto

lemma detectFrontRun_value:
  "detectFrontRun recent (t\<lparr> trx_value := v' \<rparr>) avg = detectFrontRun recent t avg"
  by (simp add: detectFrontRun_def sameTargetRecent_value)

lemma detectFrontRun_mono_gasPrice:
  assumes "trx_gasPrice t \<le> g'" and "detectFrontRun recent t avg"
  shows "detectFrontRun recent (t\<lparr> trx_gasPrice := g' \<rparr>) avg"
  using assms by (auto simp: detectFrontRun_def Let_def sameTargetRecent_gasPrice split: if_splits)

lemma bigint_div_mono:
  assumes "0 \<le> a" and "a \<le> b"
  shows "bigint_div (a * 115) 100 \<le> bigint_div (b * 115) 100"
proof -
  have "a * 115 div 100 \<le> b * 115 div 100"
    using assms by (intro zdiv_mono1) simp_all
  moreover have "bigint_div (a * 115) 100 = a * 115 div 100"
    using assms by (cases "a = 0") (simp_all add: bigint_div_def)
  moreover have "bigint_div (b * 115) 100 = b * 115 div 100"
    using assms by (cases "b = 0") (simp_all add: bigint_div_def)
  ultimately show ?thesis by simp
qed

lemma detectFrontRun_mono_average:
  assumes "0 < avg'" and "avg' \<le> avg" and "detectFrontRun recent t avg"
  shows "detectFrontRun recent t avg'"
  using assms bigint_div_mono[of avg' avg]
  by (auto simp: detectFrontRun_def Let_def FRONT_RUN_GAS_MULTIPLIER_def split: if_splits)

lemma detectArbitrage_mono_value:
  assumes "trx_value t \<le> v'" and "detectArbitrage t ts"
  shows "detectArbitrage (t\<lparr> trx_value := v' \<rparr>) ts"
  using assms by (auto simp: detectArbitrage_def Let_def split: if_splits)

lemma detectArbitrage_mono_gasPrice:
  assumes "trx_gasPrice t \<le> g'" and "detectArbitrage t ts"
  shows "detectArbitrage (t\<lparr> trx_gasPrice := g' \<rparr>) ts"
  using assms by (auto simp: detectArbitrage_def Let_def split: if_splits)

lemma patternPoints_mono_value:
  assumes "trx_value t \<le> v'"
  shows "patternPoints recent t avg ts \<le> patternPoints recent (t\<lparr> trx_value := v' \<rparr>) avg ts"
  using detectArbitrage_mono_value[OF assms, of ts]
  by (simp add: patternPoints_def detectSandwich_value detectFrontRun_value)

lemma patternPoints_mono_gasPrice:
  assumes "trx_gasPrice t \<le> g'"
    and "detectSandwich recent t ts \<longrightarrow> detectSandwich recent (t\<lparr> trx_gasPrice := g' \<rparr>) ts"
  shows "patternPoints recent t avg ts \<le> patternPoints recent (t\<lparr> trx_gasPrice := g' \<rparr>) avg ts"
  using detectArbitrage_mono_gasPrice[OF assms(1), of ts]
    detectFrontRun_mono_gasPrice[OF assms(1), of recent avg] assms(2)
  by (simp add: patternPoints_def)

lemma patternPoints_mono_average:
  assumes "0 < avg'" and "avg' \<le> avg"
  shows "patternPoints recent t avg ts \<le> patternPoints recent t avg' ts"
  using detectFrontRun_mono_average[OF assms, of recent t]
  by (simp add: patternPoints_def)

lemma gasPoints_value: "gasPoints (t\<lparr> trx_value := v' \<rparr>) avg = gasPoints t avg"
  by (simp add: gasPoints_def)

lemma valuePoints_gasPrice: "valuePoints (t\<lparr> trx_gasPrice := g' \<rparr>) = valuePoints t"
  by (simp add: valuePoints_def)

text \<open>
  C7, amended: the score is an integer between 0 and 100; it does not decrease when the
  value grows; it does not decrease when the ratio of gas price to average grows by a
  smaller average (both averages above 0, gas price not negative); and it does not decrease
  when the ratio grows by a larger gas price, provided a sandwich match of the transaction
  is not lost by the larger gas price.
\<close>

theorem calculateRiskScore_bounded_monotone:
  "0 \<le> calculateRiskScore recent t avg ts \<and>
   calculateRiskScore recent t avg ts \<le> 100 \<and>
   (trx_value t \<le> v' \<longrightarrow>
      calculateRiskScore recent t avg ts
        \<le> calculateRiskScore recent (t\<lparr> trx_value := v' \<rparr>) avg ts) \<and>
   (trx_gasPrice t \<le> g' \<and>
    (detectSandwich recent t ts \<longrightarrow> detectSandwich recent (t\<lparr> trx_gasPrice := g' \<rparr>) ts) \<longrightarrow>
      calculateRiskScore recent t avg ts
        \<le> calculateRiskScore recent (t\<lparr> trx_gasPrice := g' \<rparr>) avg ts) \<and>
   (0 < avg' \<and> avg' \<le> avg \<and> 0 \<le> trx_gasPrice t \<longrightarrow>
      calculateRiskScore recent t avg ts \<le> calculateRiskScore recent t avg' ts)"
proof (intro conjI impI)
  show "0 \<le> calculateRiskScore recent t avg ts" "calculateRiskScore recent t avg ts \<le> 100"
    using calculateRiskScore_range[of recent t avg ts] by simp_all
next
  assume "trx_value t \<le> v'"
  then show "calculateRiskScore recent t avg ts
        \<le> calculateRiskScore recent (t\<lparr> trx_value := v' \<rparr>) avg ts"
    using valuePoints_mono[of t v'] patternPoints_mono_value[of t v' recent avg ts]
    by (simp add: calculateRiskScore_def Let_def gasPoints_value)
next
  assume a: "trx_gasPrice t \<le> g' \<and>
    (detectSandwich recent t ts \<longrightarrow> detectSandwich recent (t\<lparr> trx_gasPrice := g' \<rparr>) ts)"
  then show "calculateRiskScore recent t avg ts
        \<le> calculateRiskScore recent (t\<lparr> trx_gasPrice := g' \<rparr>) avg ts"
    using gasPoints_mono_gasPrice[of t g' avg] patternPoints_mono_gasPrice[of t g' recent ts avg]
    by (simp add: calculateRiskScore_def Let_def valuePoints_gasPrice)
next
  assume a: "0 < avg' \<and> avg' \<le> avg \<and> 0 \<le> trx_gasPrice t"
  then show "calculateRiskScore recent t avg ts \<le> calculateRiskScore recent t avg' ts"
    using gasPoints_mono_average[of avg' avg t] patternPoints_mono_average[of avg' avg recent t ts]
    by (simp add: calculateRiskScore_def Let_def)
qed

lemmas analytics_defs =
  detectFrontRun_def calculateRiskScore_def gasPoints_def valuePoints_def
  patternPoints_def detectArbitrage_def c7_recentTx_def c7_transaction_def bigint_div_def
  FRONT_RUN_GAS_MULTIPLIER_def SANDWICH_TIME_WINDOW_def

theorem calculateRiskScore_bounded_monotone_witness:
  "calculateRiskScore [c7_recentTx] (c7_transaction 110) 100 100 = 0 \<and>
   calculateRiskScore [c7_recentTx] ((c7_transaction 110)\<lparr> trx_value := 2000000000000000000 \<rparr>)
     100 100 = 30 \<and>
   calculateRiskScore [c7_recentTx] ((c7_transaction 110)\<lparr> trx_gasPrice := 130 \<rparr>) 100 100 = 30 \<and>
   calculateRiskScore [c7_recentTx] (c7_transaction 110) 50 100 = 50"
proof -
  note t = calculateRiskScore_bounded_monotone[of "[c7_recentTx]" "c7_transaction 110" 100 100
      2000000000000000000 130 50]
  have v: "trx_value (c7_transaction 110) \<le> 2000000000000000000"
    by (simp add: c7_transaction_def)
  have g: "trx_gasPrice (c7_transaction 110) \<le> 130 \<and>
    (detectSandwich [c7_recentTx] (c7_transaction 110) 100 \<longrightarrow>
     detectSandwich [c7_recentTx] ((c7_transaction 110)\<lparr> trx_gasPrice := 130 \<rparr>) 100)"
    by (simp add: c7_transaction_def c7_recentTx_def)
  have a: "(0::int) < 50 \<and> (50::int) \<le> 100 \<and> 0 \<le> trx_gasPrice (c7_transaction 110)"
    by (simp add: c7_transaction_def)
  have "calculateRiskScore [c7_recentTx] (c7_transaction 110) 100 100
        \<le> calculateRiskScore [c7_recentTx]
             ((c7_transaction 110)\<lparr> trx_value := 2000000000000000000 \<rparr>) 100 100"
    by (rule t[THEN conjunct2, THEN conjunct2, THEN conjunct1, THEN mp, OF v])
  moreover have "calculateRiskScore [c7_recentTx] (c7_transaction 110) 100 100
        \<le> calculateRiskScore [c7_recentTx] ((c7_transaction 110)\<lparr> trx_gasPrice := 130 \<rparr>) 100 100"
    by (rule t[THEN conjunct2, THEN conjunct2, THEN conjunct2, THEN conjunct1, THEN mp, OF g])
  moreover have "calculateRiskScore [c7_recentTx] (c7_transaction 110) 100 100
        \<le> calculateRiskScore [c7_recentTx] (c7_transaction 110) 50 100"
    by (rule t[THEN conjunct2, THEN conjunct2, THEN conjunct2, THEN conjunct2, THEN mp, OF a])
  ultimately show ?thesis
    by (simp add: analytics_defs)
qed

section \<open>Stale observations\<close>

lemma checkPriceAnomaly_stale:
  assumes "0 < lastOraclePrices st symbol"
    and "lastOracleUpdate st symbol \<le> block_timestamp env"
    and "300 \<le> block_timestamp env - lastOracleUpdate st symbol"
  shows "checkPriceAnomaly env symbol currentPrice st = Inl (Revert ''Oracle price too old'')"
  using assms by (simp add: checkPriceAnomaly_def Let_def andThen_def checked_sub_def)

lemma checkPriceAnomaly_Inr_fresh:
  assumes "checkPriceAnomaly env symbol currentPrice st = Inr b"
  shows "lastOracleUpdate st symbol \<le> block_timestamp env \<and>
         block_timestamp env - lastOracleUpdate st symbol < 300"
  using assms
  by (auto simp: checkPriceAnomaly_def Let_def andThen_Inr checked_sub_def split: if_splits)

lemma checkPriceAnomaly_stale_iff:
  "checkPriceAnomaly env symbol currentPrice st = Inl (Revert ''Oracle price too old'') \<longleftrightarrow>
     0 < lastOraclePrices st symbol \<and> lastOracleUpdate st symbol \<le> block_timestamp env \<and>
     300 \<le> block_timestamp env - lastOracleUpdate st symbol"
  by (auto simp: checkPriceAnomaly_def Let_def andThen_def checked_sub_def checked_mul_def
      checked_div_def split: if_splits)

lemma detectMEV_tail_verdict_cong:
  assumes g: "gasHistory a = gasHistory b"
    and m: "frontRunGasMultiplier a = frontRunGasMultiplier b"
    and fa: "lastPrices a feedId = currentPrice" "lastUpdateTimestamp a feedId = block_timestamp env"
    and fb: "lastPrices b feedId = currentPrice" "lastUpdateTimestamp b feedId = block_timestamp env"
  shows "map_sum id fst (detectMEV_tail env feedId currentPrice txGasPrice a)
       = map_sum id fst (detectMEV_tail env feedId currentPrice txGasPrice b)"
proof -
  have av: "getAverageGasPrice a = getAverageGasPrice b"
    by (simp add: getAverageGasPrice_def g)
  have fr: "\<And>avg. detectFrontRunning txGasPrice avg a = detectFrontRunning txGasPrice avg b"
    by (simp add: detectFrontRunning_def m)
  note ar = detectArbitragePattern_fresh[OF fa] detectArbitragePattern_fresh[OF fb]
  show ?thesis
    unfolding detectMEV_tail_def av fr ar
    by (simp add: andThen_def split: sum.splits)
qed

lemma detectMEV_verdict_independent_of_history:
  "map_sum id fst (detectMEV env feedId expectedPrice txGasPrice
       (st\<lparr> lastPrices := lp, lastUpdateTimestamp := lu \<rparr>))
   = map_sum id fst (detectMEV env feedId expectedPrice txGasPrice st)"
proof (cases "msg_sender env = owner st")
  case False
  then show ?thesis by (simp add: detectMEV_def)
next
  case own: True
  then have own': "msg_sender env = owner (st\<lparr> lastPrices := lp, lastUpdateTimestamp := lu \<rparr>)"
    by simp
  show ?thesis
  proof (cases "oracle_value env feedId")
    case None
    with own show ?thesis by (simp add: detectMEV_def)
  next
    case (Some currentPrice)
    let ?a = "st\<lparr> lastPrices := lp, lastUpdateTimestamp := lu \<rparr>
                \<lparr> lastPrices := (lastPrices (st\<lparr> lastPrices := lp, lastUpdateTimestamp := lu \<rparr>))
                     (feedId := currentPrice),
                  lastUpdateTimestamp :=
                    (lastUpdateTimestamp (st\<lparr> lastPrices := lp, lastUpdateTimestamp := lu \<rparr>))
                     (feedId := block_timestamp env) \<rparr>"
    let ?b = "st\<lparr> lastPrices := (lastPrices st)(feedId := currentPrice),
                  lastUpdateTimestamp := (lastUpdateTimestamp st)(feedId := block_timestamp env) \<rparr>"
    show ?thesis
    proof (cases "updateGasHistory txGasPrice ?b")
      case (Inl e)
      then have "updateGasHistory txGasPrice ?a = Inl e"
        by (auto simp: updateGasHistory_def andThen_def checked_add_def split: if_splits)
      with Inl show ?thesis
        unfolding detectMEV_unfold[OF own Some] detectMEV_unfold[OF own' Some]
        by (simp add: andThen_def split: sum.splits)
    next
      case (Inr b2)
      then obtain a2 where a2: "updateGasHistory txGasPrice ?a = Inr a2"
        by (auto simp: updateGasHistory_def andThen_def checked_add_def split: if_splits)
      note fa = updateGasHistory_fields[OF a2] and fb = updateGasHistory_fields[OF Inr]
      have t: "map_sum id fst (detectMEV_tail env feedId currentPrice txGasPrice a2)
             = map_sum id fst (detectMEV_tail env feedId currentPrice txGasPrice b2)"
        by (rule detectMEV_tail_verdict_cong) (simp_all add: fa fb)
      have r: "riskThreshold a2 = riskThreshold b2" by (simp add: fa fb)
      show ?thesis
        unfolding detectMEV_unfold[OF own Some] detectMEV_unfold[OF own' Some]
        using t r a2[simplified] Inr[simplified]
        by (simp add: andThen_def split: sum.splits)
    qed
  qed
qed

text \<open>
  C8: \<open>checkPriceAnomaly\<close> rejects a stored price whose update lies 300 seconds or more
  back with the error \<open>Oracle price too old\<close>, which it raises in no other case, and
  whenever it returns a verdict the stored price is younger than 300 seconds. On the inline
  path the verdict of \<open>detectMEV\<close> (or its failure) is the same whatever observations
  are stored: the stored observation is overwritten with the price and the time of the call
  before the arbitrage detector reads it, so no observation older than the call is used.
\<close>

theorem stale_observation_never_used:
  "(0 < lastOraclePrices store symbol \<and>
    lastOracleUpdate store symbol \<le> block_timestamp env \<and>
    300 \<le> block_timestamp env - lastOracleUpdate store symbol \<longrightarrow>
      checkPriceAnomaly env symbol currentPrice store = Inl (Revert ''Oracle price too old'')) \<and>
   (checkPriceAnomaly env symbol currentPrice store = Inl (Revert ''Oracle price too old'') \<longrightarrow>
      0 < lastOraclePrices store symbol \<and>
      300 \<le> block_timestamp env - lastOracleUpdate store symbol) \<and>
   (\<forall>isAnomaly. checkPriceAnomaly env symbol currentPrice store = Inr isAnomaly \<longrightarrow>
      lastOracleUpdate store symbol \<le> block_timestamp env \<and>
      block_timestamp env - lastOracleUpdate store symbol < 300) \<and>
   (\<forall>lp lu. map_sum id fst (detectMEV env feedId expectedPrice txGasPrice
                 (st\<lparr> lastPrices := lp, lastUpdateTimestamp := lu \<rparr>))
            = map_sum id fst (detectMEV env feedId expectedPrice txGasPrice st)) \<and>
   (\<forall>verdict st'. detectMEV env feedId expectedPrice txGasPrice st = Inr (verdict, st') \<longrightarrow>
      lastUpdateTimestamp st' feedId = block_timestamp env)"
proof -
  have a: "0 < lastOraclePrices store symbol \<and>
    lastOracleUpdate store symbol \<le> block_timestamp env \<and>
    300 \<le> block_timestamp env - lastOracleUpdate store symbol \<longrightarrow>
      checkPriceAnomaly env symbol currentPrice store = Inl (Revert ''Oracle price too old'')"
    using checkPriceAnomaly_stale[of store symbol env currentPrice] by simp
  have b: "checkPriceAnomaly env symbol currentPrice store = Inl (Revert ''Oracle price too old'') \<longrightarrow>
      0 < lastOraclePrices store symbol \<and>
      300 \<le> block_timestamp env - lastOracleUpdate store symbol"
    using checkPriceAnomaly_stale_iff[of env symbol currentPrice store] by simp
  have c: "\<forall>isAnomaly. checkPriceAnomaly env symbol currentPrice store = Inr isAnomaly \<longrightarrow>
      lastOracleUpdate store symbol \<le> block_timestamp env \<and>
      block_timestamp env - lastOracleUpdate store symbol < 300"
    using checkPriceAnomaly_Inr_fresh[of env symbol currentPrice store] by simp
  have d: "\<forall>lp lu. map_sum id fst (detectMEV env feedId expectedPrice txGasPrice
                 (st\<lparr> lastPrices := lp, lastUpdateTimestamp := lu \<rparr>))
            = map_sum id fst (detectMEV env feedId expectedPrice txGasPrice st)"
    by (intro allI detectMEV_verdict_independent_of_history)
  have e: "\<forall>verdict st'. detectMEV env feedId expectedPrice txGasPrice st = Inr (verdict, st') \<longrightarrow>
      lastUpdateTimestamp st' feedId = block_timestamp env"
  proof (intro allI impI)
    fix verdict st'
    assume r: "detectMEV env feedId expectedPrice txGasPrice st = Inr (verdict, st')"
    from detectMEV_Inr_owner_oracle[OF r] obtain currentPrice where
      o: "oracle_value env feedId = Some currentPrice" by auto
    from detectMEV_Inr_head[OF r o] obtain st2 where
      u: "updateGasHistory txGasPrice
         (st\<lparr> lastPrices := (lastPrices st)(feedId := currentPrice),
              lastUpdateTimestamp := (lastUpdateTimestamp st)(feedId := block_timestamp env) \<rparr>)
         = Inr st2" and
      s: "st' = st2\<lparr> detector_log := detector_log st' \<rparr>"
      by auto
    show "lastUpdateTimestamp st' feedId = block_timestamp env"
      by (subst s) (simp add: updateGasHistory_fields[OF u])
  qed
  show ?thesis by (intro conjI a b c d e)
qed

theorem stale_observation_never_used_witness:
  "checkPriceAnomaly (quiet_env 1300 0) ''ETH'' 2100 c8_store
     = Inl (Revert ''Oracle price too old'') \<and>
   checkPriceAnomaly (quiet_env 1100 0) ''ETH'' 2100 c8_store = Inr True \<and>
   (1000::nat) \<le> 1100 \<and> (1100::nat) - 1000 < 300 \<and>
   (\<exists>st'. detectMEV (quiet_env 1010 2100) ETH 2100 20000000000 c1_state
            = Inr ((False, UNKNOWN, 0), st') \<and>
          lastUpdateTimestamp st' ETH = 1010)"
proof -
  have s: "0 < lastOraclePrices c8_store ''ETH'' \<and>
    lastOracleUpdate c8_store ''ETH'' \<le> block_timestamp (quiet_env 1300 0) \<and>
    300 \<le> block_timestamp (quiet_env 1300 0) - lastOracleUpdate c8_store ''ETH''"
    by (simp add: c8_store_def quiet_env_simps)
  have stale: "checkPriceAnomaly (quiet_env 1300 0) ''ETH'' 2100 c8_store
     = Inl (Revert ''Oracle price too old'')"
    by (rule stale_observation_never_used[THEN conjunct1, THEN mp, OF s])
  have fresh: "checkPriceAnomaly (quiet_env 1100 0) ''ETH'' 2100 c8_store = Inr True"
    by (simp add: checkPriceAnomaly_def c8_store_def quiet_env_simps Let_def andThen_def
        checked_sub_def checked_mul_def checked_div_def MAX_UINT256_def)
  have age: "lastOracleUpdate c8_store ''ETH'' \<le> block_timestamp (quiet_env 1100 0) \<and>
      block_timestamp (quiet_env 1100 0) - lastOracleUpdate c8_store ''ETH'' < 300"
    by (rule stale_observation_never_used[THEN conjunct2, THEN conjunct2, THEN conjunct1,
          rule_format, OF fresh])
  have inv: "detector_inv c1_state"
    by (simp add: detector_inv_def c1_state_simps GAS_HISTORY_SIZE_def)
  have ev: "detectMEV (quiet_env 1010 2100) ETH 2100 20000000000 c1_state =
     Inr ((False, UNKNOWN, 0),
          c1_state\<lparr> lastPrices := (lastPrices c1_state)(ETH := 2100),
              lastUpdateTimestamp := (lastUpdateTimestamp c1_state)
                (ETH := block_timestamp (quiet_env 1010 2100)),
              gasHistory := (gasHistory c1_state)[gasHistoryIndex c1_state := 20000000000],
              gasHistoryIndex := (gasHistoryIndex c1_state + 1) mod GAS_HISTORY_SIZE \<rparr>)"
    by (intro detectMEV_cold_start_quiet inv)
       (simp_all add: quiet_env_simps c1_state_simps slippage_examples absDiff_def MAX_UINT256_def)
  from stale_observation_never_used[THEN conjunct2, THEN conjunct2, THEN conjunct2,
      THEN conjunct2, rule_format, OF ev]
  have "\<exists>st'. detectMEV (quiet_env 1010 2100) ETH 2100 20000000000 c1_state
            = Inr ((False, UNKNOWN, 0), st') \<and>
          lastUpdateTimestamp st' ETH = 1010"
    using ev by (simp add: quiet_env_simps)
  with stale fresh age show ?thesis
    by (simp add: c8_store_def quiet_env_simps)
qed

section \<open>The protected swap\<close>

lemma executeSwap_eq_minAmountOut_only:
  "executeSwap env params config w = executeSwap_minAmountOut_only env params w"
  unfolding executeSwap_def executeSwap_minAmountOut_only_def
  by (simp add: andThen_def checked_div_def split: sum.splits)

lemma executeSwap_refund:
  assumes "executeSwap env params config w = Inr ((False, out), w')"
  shows "out = 0 \<and>
    (\<exists>currentPrice. oracle_value env (pricefeedId params) = Some currentPrice \<and>
       amountIn params * currentPrice div 10 ^ 18 < minAmountOut params) \<and>
    external_calls w' = external_calls w @
      [TokenTransferFrom (tokenIn params) (msg_sender env) (this_address w) (amountIn params),
       TokenTransfer (tokenIn params) (msg_sender env) (amountIn params)]"
  using assms
  unfolding executeSwap_eq_minAmountOut_only executeSwap_minAmountOut_only_def
  by (auto simp: andThen_Inr external_def getCurrentPrice_def checked_mul_def checked_div_def
      split: if_splits option.splits)

text \<open>
  C10: \<open>executeSwap\<close> computes the expected output by the formula of the realised
  output, so the slippage it compares with the configured tolerance is 0 and the second
  refund is never taken: for every input the function equals the function without that
  check, and whenever it returns a refund \<open>(False, 0)\<close> the output was below
  \<open>minAmountOut\<close>.
\<close>

theorem executeSwap_tolerance_check_unreachable:
  "executeSwap env params config w = executeSwap_minAmountOut_only env params w \<and>
   (\<forall>out w'. executeSwap env params config w = Inr ((False, out), w') \<longrightarrow>
      out = 0 \<and>
      (\<exists>currentPrice. oracle_value env (pricefeedId params) = Some currentPrice \<and>
         amountIn params * currentPrice div 10 ^ 18 < minAmountOut params) \<and>
      external_calls w' = external_calls w @
        [TokenTransferFrom (tokenIn params) (msg_sender env) (this_address w) (amountIn params),
         TokenTransfer (tokenIn params) (msg_sender env) (amountIn params)])"
proof -
  have r: "\<forall>out w'. executeSwap env params config w = Inr ((False, out), w') \<longrightarrow>
      out = 0 \<and>
      (\<exists>currentPrice. oracle_value env (pricefeedId params) = Some currentPrice \<and>
         amountIn params * currentPrice div 10 ^ 18 < minAmountOut params) \<and>
      external_calls w' = external_calls w @
        [TokenTransferFrom (tokenIn params) (msg_sender env) (this_address w) (amountIn params),
         TokenTransfer (tokenIn params) (msg_sender env) (amountIn params)]"
  proof (intro allI impI)
    fix out w'
    assume a: "executeSwap env params config w = Inr ((False, out), w')"
    show "out = 0 \<and>
      (\<exists>currentPrice. oracle_value env (pricefeedId params) = Some currentPrice \<and>
         amountIn params * currentPrice div 10 ^ 18 < minAmountOut params) \<and>
      external_calls w' = external_calls w @
        [TokenTransferFrom (tokenIn params) (msg_sender env) (this_address w) (amountIn params),
         TokenTransfer (tokenIn params) (msg_sender env) (amountIn params)]"
      by (rule executeSwap_refund[OF a])
  qed
  show ?thesis by (rule conjI[OF executeSwap_eq_minAmountOut_only r])
qed

lemma c2_simps:
  "msg_sender c2_env = 2" "msg_value c2_env = 0" "block_timestamp c2_env = 1010"
  "tx_gasprice c2_env = 50000000000" "oracle_value c2_env ETH = Some 2000"
  "tokenIn c2_params = 11" "tokenOut c2_params = 12" "amountIn c2_params = 10"
  "minAmountOut c2_params = 0" "pricefeedId c2_params = ETH" "deadline c2_params = 2000"
  "protector c2_world = c2_protector" "detector c2_world = c2_detector"
  "this_address c2_world = 7" "external_calls c2_world = []"
  "callee_accepts c2_world = (\<lambda>_. True)"
  "userConfigs c2_protector 2 = c2_config" "globalStats c2_protector = no_stats"
  "userStats c2_protector = (\<lambda>_. no_stats)" "protector_log c2_protector = []"
  "isActive c2_config" "strategy c2_config = REVERT" "\<not> whitelistMode c2_config"
  by (simp_all add: c2_env_def c2_params_def c2_world_def c2_protector_def c2_config_def)

theorem executeSwap_tolerance_check_unreachable_witness:
  "executeSwap c2_env (c2_params\<lparr> minAmountOut := 11 \<rparr>) c2_config c2_world
     = Inr ((False, 0), c2_world\<lparr> external_calls :=
         [TokenTransferFrom 11 2 7 10, TokenTransfer 11 2 10] \<rparr>) \<and>
   oracle_value c2_env ETH = Some 2000 \<and> (10::nat) * 2000 div 10 ^ 18 < 11"
proof -
  have e: "executeSwap c2_env (c2_params\<lparr> minAmountOut := 11 \<rparr>) c2_config c2_world
     = Inr ((False, 0), c2_world\<lparr> external_calls :=
         [TokenTransferFrom 11 2 7 10, TokenTransfer 11 2 10] \<rparr>)"
    unfolding executeSwap_tolerance_check_unreachable[THEN conjunct1]
    by (simp add: executeSwap_minAmountOut_only_def external_def getCurrentPrice_def
        andThen_def checked_mul_def checked_div_def c2_simps MAX_UINT256_def)
  from executeSwap_tolerance_check_unreachable[THEN conjunct2, rule_format, OF e]
  show ?thesis using e by (simp add: c2_simps)
qed






text \<open>
  When the detector's oracle read, made on the protector's plain call, does not yield a
  price, a call that passes the guards reverts before any detection.
\<close>

lemma protectSwap_relay_fails:
  assumes "block_timestamp env \<le> deadline params" and "0 < amountIn params"
    and "isActive (userConfigs (protector w) (msg_sender env))"
    and "whitelistMode (userConfigs (protector w) (msg_sender env)) \<longrightarrow>
           whitelistedTokens (protector w) (tokenIn params) \<and>
           whitelistedTokens (protector w) (tokenOut params)"
    and "relayed_oracle w (pricefeedId params) = None"
  shows "protectSwap env params w = Inl OracleFailure"
  using assms
  by (simp add: protectSwap_def Let_def calculateExpectedPrice_def getCurrentPrice_def
      andThen_def)









end
